theory Spec2Isabelle
  imports Complex_Main "HOL-Library.Char_ord" "HOL-Library.Product_Lexorder"
begin

section \<open>The sale-order data-access layer (class SaleOrderDao of sale_order.py)\<close>

text \<open>
  The class builds SQL statements for a sale-order schema, runs them on a database
  session and shapes the rows for display. The development follows the source in three
  layers: the values and the row-independent Python helpers; the construction of the
  filter conditions and statements (data the code builds); and the meaning of those
  statements on tables of rows, through which the three operations
  \<open>do_get_local_order_list_info\<close>, \<open>do_get_local_order_pc_list_info\<close> and
  \<open>do_get_local_order_detail_info\<close> are run.
\<close>

subsection \<open>Values\<close>

text \<open>
  Amounts and quantities are exact decimals (PostgreSQL \<open>Numeric\<close>, Python
  \<open>Decimal\<close>); a value is modelled by the rational number it denotes, and sums are
  taken exactly, as \<open>Numeric\<close> takes them and as \<open>Decimal\<close> does within the
  precision of its context. Timestamps and business days are points of a linear order;
  as request parameters they are date values, which Python counts as true whenever they
  are present. A nullable column is an \<open>option\<close>.
\<close>

type_synonym numeric = rat
type_synonym timestamp = int

datatype py_error = KeyError | DatabaseError

subsection \<open>convert_aggregated_refund_result_code\<close>

text \<open>
  The success map is a Python dict from refund ids to the tri-state success flag of the
  aggregated refund payment (\<open>None\<close>, \<open>True\<close> or \<open>False\<close>). The four return
  codes are 0 (no aggregated payment), 1 (refund pending), 2 (success) and 3 (failure).
\<close>

definition convert_aggregated_refund_result_code ::
  "int \<Rightarrow> (int \<rightharpoonup> bool option) \<Rightarrow> int" where
  "convert_aggregated_refund_result_code refund_id aggregated_status_by_refund_id_map =
     (if refund_id \<notin> dom aggregated_status_by_refund_id_map then 0
      else
        (let is_aggregated_refund_success =
               (case aggregated_status_by_refund_id_map refund_id of
                  None \<Rightarrow> None | Some flag \<Rightarrow> flag)
         in if is_aggregated_refund_success = None then 1
            else if is_aggregated_refund_success = Some True then 2
            else 3))"

subsection \<open>Order items and get_total_purchase_quantity\<close>

text \<open>
  A row of table \<open>order_item\<close>. The columns kept are the ones the list operations
  filter, order and compute on; the remaining columns of the item query (prices, unit,
  picture, category, specification) are copied to the caller unchanged and carry no logic.
\<close>

record order_item =
  item_id :: int
  item_order_id :: "int option"
  item_order_number :: "string option"
  item_disabled :: "bool option"
  goods_sale_name :: "string option"
  barcode :: "string option"
  purchase_quantity :: "numeric option"

text \<open>
  \<open>order_item.get("purchase_quantity")\<close> is \<open>None\<close> for a missing or NULL quantity; the
  test \<open>if purchase_quantity:\<close> also skips a zero. The loop is a left fold over the
  items, starting from \<open>Decimal("0")\<close>.
\<close>

definition truthy_numeric :: "numeric option \<Rightarrow> bool" where
  "truthy_numeric q = (case q of None \<Rightarrow> False | Some v \<Rightarrow> v \<noteq> 0)"

definition add_purchase_quantity :: "numeric \<Rightarrow> order_item \<Rightarrow> numeric" where
  "add_purchase_quantity total_purchase_quantity order_item =
     (if truthy_numeric (purchase_quantity order_item)
      then total_purchase_quantity + the (purchase_quantity order_item)
      else total_purchase_quantity)"

definition get_total_purchase_quantity :: "order_item list \<Rightarrow> numeric" where
  "get_total_purchase_quantity order_items =
     (let total_purchase_quantity = 0
      in if order_items = [] then total_purchase_quantity
         else foldl add_purchase_quantity total_purchase_quantity order_items)"


definition example_item :: "int \<Rightarrow> numeric option \<Rightarrow> order_item" where
  "example_item n q =
     \<lparr>item_id = n, item_order_id = Some 101, item_order_number = Some ''SO-1'',
      item_disabled = Some False, goods_sale_name = Some ''tea'', barcode = Some ''690'',
      purchase_quantity = q\<rparr>"

section \<open>Building the filter conditions\<close>

subsection \<open>What the file imports from other modules\<close>

text \<open>
  The enumeration of order states (\<open>OrderStateEnum\<close>: the members' values and
  descriptions, in declaration order), the code of the store-order source
  (\<open>OrderSourceEnum.STORE_ORDER.code\<close>), the escape character
  (\<open>DEFAULT_ESCAPE_CHAR\<close>) and the display formatter of numbers
  (\<open>format_number_to_display\<close>) are declared in modules outside the source file. The
  operations take them as parameters.
\<close>

record externals =
  order_state_enum :: "(int \<times> string) list"
  store_order_code :: int
  default_escape_char :: char
  format_number_to_display :: "numeric \<Rightarrow> string"

subsection \<open>Request parameters\<close>

text \<open>
  \<open>QueryParamIn\<close>, \<open>QueryParamPCIn\<close> and \<open>AmountFilter\<close>. An optional
  field is an \<open>option\<close>; the code tests each with Python's truthiness, under which
  \<open>None\<close>, the empty string and the empty list are false.
\<close>

datatype comparison_operator = GT | GTE | LT | LTE | EQ | NEQ | Unlisted string

record amount_filter =
  amount_type :: string
  operator :: comparison_operator
  amount_value :: numeric

record query_param_in =
  q_company_id :: int
  q_order_num_or_user :: "string option"
  q_store_ids :: "int list option"
  q_channel_ids :: "int list option"
  q_states :: "int list option"
  q_operater_name_or_phone :: "string option"
  q_create_at_start :: "timestamp option"
  q_create_at_end :: "timestamp option"
  q_business_day_start :: "timestamp option"
  q_business_day_end :: "timestamp option"
  q_payment_method :: "int list option"
  q_page_size :: int
  q_page_number :: int

record query_param_pc_in =
  pc_company_id :: int
  pc_store_ids :: "int list option"
  pc_order_number :: "string option"
  pc_product_name :: "string option"
  pc_states :: "int list option"
  pc_amount_filter :: "amount_filter list option"
  pc_payment_method :: "int list option"
  pc_create_at_start :: "timestamp option"
  pc_create_at_end :: "timestamp option"
  pc_channel_ids :: "int list option"
  pc_user_name_or_phone :: "string option"
  pc_operater_name_or_phone :: "string option"
  pc_business_day_start :: "timestamp option"
  pc_business_day_end :: "timestamp option"
  pc_receive_price :: "string option"
  pc_total_origin_price :: "string option"
  pc_discount_price :: "string option"
  pc_page_size :: int
  pc_page_number :: int

definition truthy :: "'a list option \<Rightarrow> bool" where
  "truthy v = (case v of None \<Rightarrow> False | Some xs \<Rightarrow> xs \<noteq> [])"

definition when_truthy :: "'a list option \<Rightarrow> ('a list \<Rightarrow> 'b list) \<Rightarrow> 'b list" where
  "when_truthy v f = (case v of None \<Rightarrow> [] | Some xs \<Rightarrow> if xs = [] then [] else f xs)"

definition for_given :: "'a option \<Rightarrow> ('a \<Rightarrow> 'b) \<Rightarrow> 'b list" where
  "for_given v f = (case v of None \<Rightarrow> [] | Some x \<Rightarrow> [f x])"

subsection \<open>Conditions\<close>

text \<open>
  The SQLAlchemy expressions the code appends to \<open>conditions\<close>, as data. Columns are
  those of table \<open>sale_order\<close>; \<open>Success_payment_sum\<close> is the correlated scalar
  subquery that sums the successful payments of the order. An \<open>ILike\<close> carries its
  pattern and the \<open>escape=\<close> argument when the code passes one. The two correlated
  \<open>EXISTS\<close> subqueries are one constructor each.
\<close>

datatype int_column = Company_id | Order_source | Store_team_info_id | Channel_id | State

datatype text_column =
  Order_number | Member_name | Member_phone | Operater_name | Operater_phone
  | Shopping_guide_name

datatype time_column = Created_at | Business_day

datatype amount_column =
  Total_origin_price | Discount_price | Payment_amount | Success_payment_sum

datatype comparison = Cmp_gt | Cmp_ge | Cmp_lt | Cmp_le | Cmp_eq | Cmp_ne

datatype condition =
    Disabled_is_false
  | Int_equals int_column int
  | Int_in int_column "int list"
  | ILike text_column string "char option"
  | Time_at_least time_column timestamp
  | Time_at_most time_column timestamp
  | Amount_compare amount_column comparison numeric
  | Or_any "condition list"
  | Exists_item_ilike string "char option"
  | Exists_successful_payment_by "int list"

subsection \<open>Patterns\<close>

text \<open>
  Modelled from the spec: \<open>fuzzy_search_string\<close> of module \<open>app.utils.sql_util\<close>, which
  is not in the source file. The spec describes it as fuzzy (substring) matching with
  the user's input escaped against wildcard injection by a fixed escape character: every
  wildcard (\<open>%\<close>, \<open>_\<close>) and every escape character of the input is preceded by the
  escape character, and the result is wrapped in \<open>%\<close>.
\<close>

definition fuzzy_search_string :: "string \<Rightarrow> char \<Rightarrow> string" where
  "fuzzy_search_string string escape_char =
     ''%'' @ concat (map (\<lambda>c. if c = CHR ''%'' \<or> c = CHR ''_'' \<or> c = escape_char
                                then [escape_char, c] else [c]) string) @ ''%''"

text \<open>The f-string \<open>f"%{s}%"\<close> embeds the input as it is.\<close>

definition percent_wrapped :: "string \<Rightarrow> string" where
  "percent_wrapped s = ''%'' @ s @ ''%''"

subsection \<open>get_amount_condition\<close>

definition amount_field_mapping :: "string \<rightharpoonup> amount_column" where
  "amount_field_mapping =
     [''total_price'' \<mapsto> Total_origin_price,
      ''discount_price'' \<mapsto> Discount_price,
      ''receive_price'' \<mapsto> Payment_amount]"

definition operator_mapping :: "comparison_operator \<rightharpoonup> comparison" where
  "operator_mapping =
     [GT \<mapsto> Cmp_gt, GTE \<mapsto> Cmp_ge, LT \<mapsto> Cmp_lt, LTE \<mapsto> Cmp_le,
      EQ \<mapsto> Cmp_eq, NEQ \<mapsto> Cmp_ne]"

text \<open>
  \<open>amount_field_mapping.get\<close> gives \<open>None\<close> for an unlisted amount type, and the
  function returns \<open>None\<close>; a mapped column counts as true. The subscript
  \<open>operator_mapping[...]\<close> raises \<open>KeyError\<close> for a key that is not in the dict.
\<close>

definition get_amount_condition :: "amount_filter \<Rightarrow> py_error + condition option" where
  "get_amount_condition af =
     (case amount_field_mapping (amount_type af) of
        None \<Rightarrow> Inr None
      | Some mapped \<Rightarrow>
          (let field = (if amount_type af = ''receive_price'' then Success_payment_sum
                        else mapped)
           in case operator_mapping (operator af) of
                None \<Rightarrow> Inl KeyError
              | Some cmp \<Rightarrow> Inr (Some (Amount_compare field cmp (amount_value af)))))"

text \<open>
  The loop of the PC list over the amount filters: a condition that is not \<open>None\<close>
  is appended; an exception of get_amount_condition leaves the loop and the operation.
\<close>

fun amount_conditions :: "amount_filter list \<Rightarrow> py_error + condition list" where
  "amount_conditions [] = Inr []"
| "amount_conditions (af # rest) =
     (case get_amount_condition af of
        Inl e \<Rightarrow> Inl e
      | Inr c \<Rightarrow>
          (case amount_conditions rest of
             Inl e \<Rightarrow> Inl e
           | Inr cs \<Rightarrow> Inr ((case c of None \<Rightarrow> [] | Some x \<Rightarrow> [x]) @ cs)))"

subsection \<open>The conditions of do_get_local_order_list_info\<close>

definition list_conditions :: "externals \<Rightarrow> query_param_in \<Rightarrow> condition list" where
  "list_conditions ext q =
     [Disabled_is_false,
      Int_equals Company_id (q_company_id q),
      Int_equals Order_source (store_order_code ext)]
     @ when_truthy (q_order_num_or_user q) (\<lambda>order_num_or_user.
         (let keywords_search_ilike_str =
                fuzzy_search_string order_num_or_user (default_escape_char ext);
              esc = Some (default_escape_char ext)
          in [Or_any
                [ILike Order_number keywords_search_ilike_str esc,
                 ILike Member_name keywords_search_ilike_str esc,
                 ILike Member_phone keywords_search_ilike_str esc,
                 Exists_item_ilike keywords_search_ilike_str esc]]))
     @ when_truthy (q_store_ids q) (\<lambda>store_ids. [Int_in Store_team_info_id store_ids])
     @ when_truthy (q_channel_ids q) (\<lambda>channel_ids. [Int_in Channel_id channel_ids])
     @ (if truthy (q_states q) then [Int_in State (the (q_states q))]
        else [Int_in State [4, 5, 6, 8, 9, 10, 11]])
     @ when_truthy (q_operater_name_or_phone q) (\<lambda>operater_name_or_phone.
         [Or_any
            [ILike Operater_name (percent_wrapped operater_name_or_phone) None,
             ILike Operater_phone (percent_wrapped operater_name_or_phone) None,
             ILike Shopping_guide_name (percent_wrapped operater_name_or_phone) None]])
     @ for_given (q_create_at_start q) (Time_at_least Created_at)
     @ for_given (q_create_at_end q) (Time_at_most Created_at)
     @ for_given (q_business_day_start q) (Time_at_least Business_day)
     @ for_given (q_business_day_end q) (Time_at_most Business_day)
     @ when_truthy (q_payment_method q) (\<lambda>payment_method.
         [Exists_successful_payment_by payment_method])"

subsection \<open>The conditions of do_get_local_order_pc_list_info\<close>

text \<open>
  The conditions are appended in the order of the source; \<open>amounts\<close> stands for the
  conditions the loop over the amount filters appends in its place.
\<close>

definition pc_conditions_with ::
  "externals \<Rightarrow> query_param_pc_in \<Rightarrow> condition list \<Rightarrow> condition list" where
  "pc_conditions_with ext q amounts =
     [Disabled_is_false,
      Int_equals Company_id (pc_company_id q),
      Int_equals Order_source (store_order_code ext)]
     @ when_truthy (pc_store_ids q) (\<lambda>store_ids. [Int_in Store_team_info_id store_ids])
     @ when_truthy (pc_order_number q) (\<lambda>order_number.
         [ILike Order_number (percent_wrapped order_number) None])
     @ when_truthy (pc_product_name q) (\<lambda>product_name.
         [Exists_item_ilike (fuzzy_search_string product_name (default_escape_char ext))
            (Some (default_escape_char ext))])
     @ (if truthy (pc_states q) then [Int_in State (the (pc_states q))]
        else [Int_in State [4, 5, 6, 8, 9, 10, 11]])
     @ amounts
     @ when_truthy (pc_payment_method q) (\<lambda>payment_method.
         [Exists_successful_payment_by payment_method])
     @ for_given (pc_create_at_start q) (Time_at_least Created_at)
     @ for_given (pc_create_at_end q) (Time_at_most Created_at)
     @ when_truthy (pc_channel_ids q) (\<lambda>channel_ids. [Int_in Channel_id channel_ids])
     @ when_truthy (pc_user_name_or_phone q) (\<lambda>user_name_or_phone.
         [Or_any
            [ILike Member_name (percent_wrapped user_name_or_phone) None,
             ILike Member_phone (percent_wrapped user_name_or_phone) None]])
     @ when_truthy (pc_operater_name_or_phone q) (\<lambda>operater_name_or_phone.
         [Or_any
            [ILike Operater_name (percent_wrapped operater_name_or_phone) None,
             ILike Operater_phone (percent_wrapped operater_name_or_phone) None]])
     @ for_given (pc_business_day_start q) (Time_at_least Business_day)
     @ for_given (pc_business_day_end q) (Time_at_most Business_day)"

definition pc_amount_conditions :: "query_param_pc_in \<Rightarrow> py_error + condition list" where
  "pc_amount_conditions q =
     (if truthy (pc_amount_filter q) then amount_conditions (the (pc_amount_filter q))
      else Inr [])"

definition pc_conditions ::
  "externals \<Rightarrow> query_param_pc_in \<Rightarrow> py_error + condition list" where
  "pc_conditions ext q =
     (case pc_amount_conditions q of
        Inl e \<Rightarrow> Inl e
      | Inr amounts \<Rightarrow> Inr (pc_conditions_with ext q amounts))"

section \<open>Tables and the meaning of the statements\<close>

subsection \<open>Tables\<close>

text \<open>
  Rows of \<open>sale_order\<close> and \<open>order_payment\<close> with the columns the two list
  operations and the detail operation filter, join, order and compute on. The primary
  key \<open>id\<close> of an order is \<open>so_id\<close>. Amount columns hold decimal values, so
  that the cast to \<open>Numeric\<close> leaves them as they are.
\<close>

record sale_order =
  so_id :: int
  record_id :: "int option"
  disabled :: "bool option"
  company_id :: "int option"
  order_source :: "int option"
  order_number :: "string option"
  member_name :: "string option"
  member_phone :: "string option"
  store_team_info_id :: "int option"
  channel_id :: "int option"
  state :: "int option"
  operater_name :: "string option"
  operater_phone :: "string option"
  shopping_guide_name :: "string option"
  created_at :: "timestamp option"
  business_day :: "timestamp option"
  total_origin_price :: "numeric option"
  discount_price :: "numeric option"

record order_payment =
  order_id :: "int option"
  payment_method_id :: "int option"
  is_pay_success :: "bool option"
  payment_amount :: "numeric option"

record database =
  orders :: "sale_order list"
  payments :: "order_payment list"
  items :: "order_item list"

subsection \<open>SQL values\<close>

text \<open>
  SQL's three-valued logic (\<open>None\<close> is NULL), \<open>SUM\<close> (NULL over no non-NULL
  value), \<open>round(x, 2)\<close> on a numeric (half away from zero) and the text of a
  numeric of scale 2.
\<close>

definition sql_and :: "bool option list \<Rightarrow> bool option" where
  "sql_and bs = (if Some False \<in> set bs then Some False
                 else if None \<in> set bs then None else Some True)"

definition sql_or :: "bool option list \<Rightarrow> bool option" where
  "sql_or bs = (if Some True \<in> set bs then Some True
                else if None \<in> set bs then None else Some False)"

definition non_null :: "'a option list \<Rightarrow> 'a list" where
  "non_null vs = concat (map (\<lambda>v. case v of None \<Rightarrow> [] | Some x \<Rightarrow> [x]) vs)"

definition sql_sum :: "numeric option list \<Rightarrow> numeric option" where
  "sql_sum vs = (if non_null vs = [] then None else Some (sum_list (non_null vs)))"

definition round_half_away :: "rat \<Rightarrow> int" where
  "round_half_away x = (if 0 \<le> x then \<lfloor>x + 1 / 2\<rfloor> else - \<lfloor>- x + 1 / 2\<rfloor>)"

definition sql_round2 :: "numeric \<Rightarrow> numeric" where
  "sql_round2 x = of_int (round_half_away (x * 100)) / 100"

definition digit_char :: "nat \<Rightarrow> char" where
  "digit_char d = ''0123456789'' ! d"

fun digits10 :: "nat \<Rightarrow> string" where
  "digits10 n =
     (if n < 10 then [digit_char n] else digits10 (n div 10) @ [digit_char (n mod 10)])"

definition numeric_text2 :: "numeric \<Rightarrow> string" where
  "numeric_text2 x =
     (let cents = \<lfloor>x * 100\<rfloor>; m = nat \<bar>cents\<bar>
      in (if cents < 0 then ''-'' else '''') @ digits10 (m div 100) @ ''.''
         @ [digit_char (m mod 100 div 10), digit_char (m mod 10)])"

declare digits10.simps [simp del]

subsection \<open>Matching a pattern\<close>

text \<open>
  \<open>ILIKE\<close>: \<open>%\<close> matches any run of characters, \<open>_\<close> one character, the
  escape character makes the next character literal, and letters match regardless of
  case. Without an \<open>ESCAPE\<close> clause the escape character is the backslash. A
  pattern that ends in a lone escape character matches nothing here (the database rejects
  it; no pattern the code builds is of that form). Characters are bytes.
\<close>

definition lower_ascii :: "char \<Rightarrow> char" where
  "lower_ascii c =
     (if CHR ''A'' \<le> c \<and> c \<le> CHR ''Z'' then char_of (of_char c + (32::nat)) else c)"

fun like_match :: "char \<Rightarrow> string \<Rightarrow> string \<Rightarrow> bool" where
  "like_match esc [] s = (s = [])"
| "like_match esc (p # ps) s =
     (if p = esc then
        (case ps of
           [] \<Rightarrow> False
         | q # qs \<Rightarrow>
             (case s of [] \<Rightarrow> False
              | c # cs \<Rightarrow> lower_ascii q = lower_ascii c \<and> like_match esc qs cs))
      else if p = CHR ''%'' then
        (like_match esc ps s
         \<or> (case s of [] \<Rightarrow> False | c # cs \<Rightarrow> like_match esc (p # ps) cs))
      else if p = CHR ''_'' then
        (case s of [] \<Rightarrow> False | c # cs \<Rightarrow> like_match esc ps cs)
      else
        (case s of [] \<Rightarrow> False
         | c # cs \<Rightarrow> lower_ascii p = lower_ascii c \<and> like_match esc ps cs))"

definition ilike :: "char option \<Rightarrow> string \<Rightarrow> string \<Rightarrow> bool" where
  "ilike escape pattern s =
     like_match (case escape of None \<Rightarrow> CHR 0x5C | Some e \<Rightarrow> e) pattern s"

subsection \<open>Conditions on a row\<close>

text \<open>
  The value of a condition on an order row, in three-valued logic. A comparison with a
  NULL column is NULL; \<open>EXISTS\<close> is never NULL. \<open>Payment_amount\<close> is a column of
  another table and is never placed in a condition (get_amount_condition replaces it by
  the subquery); it reads as NULL. The base query keeps the rows on which the conjunction
  of the conditions is true.
\<close>

fun int_column_of :: "int_column \<Rightarrow> sale_order \<Rightarrow> int option" where
  "int_column_of Company_id so = company_id so"
| "int_column_of Order_source so = order_source so"
| "int_column_of Store_team_info_id so = store_team_info_id so"
| "int_column_of Channel_id so = channel_id so"
| "int_column_of State so = state so"

fun text_column_of :: "text_column \<Rightarrow> sale_order \<Rightarrow> string option" where
  "text_column_of Order_number so = order_number so"
| "text_column_of Member_name so = member_name so"
| "text_column_of Member_phone so = member_phone so"
| "text_column_of Operater_name so = operater_name so"
| "text_column_of Operater_phone so = operater_phone so"
| "text_column_of Shopping_guide_name so = shopping_guide_name so"

fun time_column_of :: "time_column \<Rightarrow> sale_order \<Rightarrow> timestamp option" where
  "time_column_of Created_at so = created_at so"
| "time_column_of Business_day so = business_day so"

definition successful_payments :: "database \<Rightarrow> sale_order \<Rightarrow> order_payment list" where
  "successful_payments db so =
     filter (\<lambda>p. order_id p \<noteq> None \<and> order_id p = record_id so
                 \<and> is_pay_success p = Some True) (payments db)"

fun amount_column_of :: "database \<Rightarrow> amount_column \<Rightarrow> sale_order \<Rightarrow> numeric option" where
  "amount_column_of db Total_origin_price so = total_origin_price so"
| "amount_column_of db Discount_price so = discount_price so"
| "amount_column_of db Payment_amount so = None"
| "amount_column_of db Success_payment_sum so =
     sql_sum (map payment_amount (successful_payments db so))"

fun compare_with :: "comparison \<Rightarrow> numeric \<Rightarrow> numeric \<Rightarrow> bool" where
  "compare_with Cmp_gt x y = (x > y)"
| "compare_with Cmp_ge x y = (x \<ge> y)"
| "compare_with Cmp_lt x y = (x < y)"
| "compare_with Cmp_le x y = (x \<le> y)"
| "compare_with Cmp_eq x y = (x = y)"
| "compare_with Cmp_ne x y = (x \<noteq> y)"

definition item_matches :: "sale_order \<Rightarrow> string \<Rightarrow> char option \<Rightarrow> order_item \<Rightarrow> bool" where
  "item_matches so pattern escape i =
     (item_order_id i \<noteq> None \<and> item_order_id i = record_id so
      \<and> item_disabled i = Some False
      \<and> sql_or [map_option (ilike escape pattern) (goods_sale_name i),
                 map_option (ilike escape pattern) (barcode i)] = Some True)"

definition payment_matches :: "sale_order \<Rightarrow> int list \<Rightarrow> order_payment \<Rightarrow> bool" where
  "payment_matches so methods p =
     (order_id p \<noteq> None \<and> order_id p = record_id so
      \<and> (case payment_method_id p of None \<Rightarrow> False | Some m \<Rightarrow> m \<in> set methods)
      \<and> is_pay_success p = Some True)"

fun eval_condition :: "database \<Rightarrow> sale_order \<Rightarrow> condition \<Rightarrow> bool option" where
  "eval_condition db so Disabled_is_false = Some (disabled so = Some False)"
| "eval_condition db so (Int_equals col v) = map_option (\<lambda>x. x = v) (int_column_of col so)"
| "eval_condition db so (Int_in col vs) = map_option (\<lambda>x. x \<in> set vs) (int_column_of col so)"
| "eval_condition db so (ILike col pattern escape) =
     map_option (ilike escape pattern) (text_column_of col so)"
| "eval_condition db so (Time_at_least col t) = map_option (\<lambda>x. x \<ge> t) (time_column_of col so)"
| "eval_condition db so (Time_at_most col t) = map_option (\<lambda>x. x \<le> t) (time_column_of col so)"
| "eval_condition db so (Amount_compare col cmp v) =
     map_option (\<lambda>x. compare_with cmp x v) (amount_column_of db col so)"
| "eval_condition db so (Or_any cs) = sql_or (map (eval_condition db so) cs)"
| "eval_condition db so (Exists_item_ilike pattern escape) =
     Some (list_ex (item_matches so pattern escape) (items db))"
| "eval_condition db so (Exists_successful_payment_by methods) =
     Some (list_ex (payment_matches so methods) (payments db))"

definition base_query :: "database \<Rightarrow> condition list \<Rightarrow> sale_order list" where
  "base_query db conditions =
     filter (\<lambda>so. sql_and (map (eval_condition db so) conditions) = Some True) (orders db)"

subsection \<open>The success-payment subqueries\<close>

text \<open>
  Each subquery joins \<open>sale_order\<close> to \<open>order_payment\<close> on
  \<open>record_id = order_id\<close>, keeps the payments whose success flag \<open>IS TRUE\<close> and
  the orders its own \<open>WHERE\<close> admits, groups by the order id and sums the amounts:
  one row per id that has a joined payment, with \<open>SUM\<close> over the non-NULL amounts.
\<close>

definition payment_sum_subquery ::
  "database \<Rightarrow> (sale_order \<Rightarrow> bool) \<Rightarrow> (int \<times> numeric option) list" where
  "payment_sum_subquery db admitted =
     (let joined = [(so, p). so \<leftarrow> orders db, p \<leftarrow> payments db,
                      order_id p \<noteq> None \<and> order_id p = record_id so
                      \<and> is_pay_success p = Some True \<and> admitted so]
      in map (\<lambda>i. (i, sql_sum [payment_amount p. (so, p) \<leftarrow> joined, so_id so = i]))
           (remdups (map (\<lambda>(so, p). so_id so) joined)))"

definition rounded2 :: "(int \<times> numeric option) list \<Rightarrow> (int \<times> numeric option) list" where
  "rounded2 rows = map (\<lambda>(i, v). (i, map_option sql_round2 v)) rows"

definition list_pay_success_query :: "database \<Rightarrow> int list \<Rightarrow> (int \<times> numeric option) list" where
  "list_pay_success_query db base_ids =
     rounded2 (payment_sum_subquery db
       (\<lambda>so. disabled so = Some False \<and> so_id so \<in> set base_ids))"

definition pay_amount_sub :: "database \<Rightarrow> int list \<Rightarrow> (int \<times> numeric option) list" where
  "pay_amount_sub db base_ids =
     rounded2 (payment_sum_subquery db (\<lambda>so. so_id so \<in> set base_ids))"

definition pc_pay_success_query :: "database \<Rightarrow> int list \<Rightarrow> (int \<times> numeric option) list" where
  "pc_pay_success_query db order_ids =
     rounded2 (payment_sum_subquery db (\<lambda>so. so_id so \<in> set order_ids))"

definition pay_success_query_disperse ::
  "database \<Rightarrow> int \<Rightarrow> int \<Rightarrow> (int \<times> numeric option) list" where
  "pay_success_query_disperse db record_id' company_id' =
     payment_sum_subquery db
       (\<lambda>so. disabled so = Some False \<and> company_id so = Some company_id'
             \<and> so_id so = record_id')"

text \<open>The outer join of an order with a subquery on the id: NULL when no row joins.\<close>

definition outer_join :: "(int \<times> 'a option) list \<Rightarrow> int \<Rightarrow> 'a option" where
  "outer_join rows i = (case map_of rows i of None \<Rightarrow> None | Some v \<Rightarrow> v)"

subsection \<open>Display columns\<close>

text \<open>
  The state names the code compares with are the UTF-8 texts of its literals for
  created, awaiting payment and unknown state; \<open>yen\<close> is the currency sign of the
  detail view. \<open>sale_order_state_trans\<close> is the SQL \<open>CASE\<close> over the members of
  the state enumeration: the description of the first member whose value the state
  equals, the unknown-state text otherwise (also for a NULL state). The rows of the two
  lists carry the columns below; the labels of store, channel, member and operator, the
  creation time as text and the joined names of the payment methods are further columns of
  the same rows, computed from the order alone, and are left out.
\<close>

definition created_name :: string where
  "created_name =
     [CHR 0xE5, CHR 0xB7, CHR 0xB2, CHR 0xE5, CHR 0x88, CHR 0x9B, CHR 0xE5, CHR 0xBB, CHR 0xBA]"

definition awaiting_payment_name :: string where
  "awaiting_payment_name =
     [CHR 0xE5, CHR 0xBE, CHR 0x85, CHR 0xE6, CHR 0x94, CHR 0xAF, CHR 0xE4, CHR 0xBB, CHR 0x98]"

definition unknown_state_name :: string where
  "unknown_state_name =
     [CHR 0xE6, CHR 0x9C, CHR 0xAA, CHR 0xE7, CHR 0x9F, CHR 0xA5, CHR 0xE7, CHR 0x8A, CHR 0xB6,
      CHR 0xE6, CHR 0x80, CHR 0x81]"

definition yen :: string where
  "yen = [CHR 0xC2, CHR 0xA5]"

definition sale_order_state_trans :: "externals \<Rightarrow> int list \<Rightarrow> int option \<Rightarrow> string" where
  "sale_order_state_trans ext exclude_state st =
     (case List.find (\<lambda>(v, description). st = Some v)
             (filter (\<lambda>(v, description). v \<notin> set exclude_state) (order_state_enum ext)) of
        Some (v, description) \<Rightarrow> description
      | None \<Rightarrow> unknown_state_name)"

definition amount_text :: "numeric option \<Rightarrow> string" where
  "amount_text v = (case v of Some x \<Rightarrow> numeric_text2 (sql_round2 x) | None \<Rightarrow> ''-'')"

definition receive_price_case :: "string \<Rightarrow> numeric option \<Rightarrow> string" where
  "receive_price_case state_case success_pay_amount =
     (if state_case \<in> set [created_name, awaiting_payment_name] then ''-''
      else case success_pay_amount of Some a \<Rightarrow> numeric_text2 a | None \<Rightarrow> ''-'')"

definition detail_receive_price_case :: "string \<Rightarrow> numeric option \<Rightarrow> string" where
  "detail_receive_price_case state_case total_payment_amount =
     (if state_case \<in> set [created_name, awaiting_payment_name] then ''-''
      else case total_payment_amount of
             Some a \<Rightarrow> yen @ numeric_text2 (sql_round2 a)
           | None \<Rightarrow> ''-'')"

record order_row =
  r_id :: int
  r_order_number :: "string option"
  r_total_origin_price :: string
  r_discount_price :: string
  r_receive_price :: string
  r_state_name :: string

record order_record = order_row +
  goods_info :: "order_item list"
  total_purchase_quantity :: string

definition select_columns ::
  "externals \<Rightarrow> (int \<times> numeric option) list \<Rightarrow> sale_order \<Rightarrow> order_row" where
  "select_columns ext pay_success_query so =
     (let state_case = sale_order_state_trans ext [] (state so)
      in \<lparr>r_id = so_id so,
          r_order_number = order_number so,
          r_total_origin_price = amount_text (total_origin_price so),
          r_discount_price = amount_text (discount_price so),
          r_receive_price =
            receive_price_case state_case (outer_join pay_success_query (so_id so)),
          r_state_name = state_case\<rparr>)"

subsection \<open>Ordering and paging\<close>

text \<open>
  \<open>ORDER BY\<close> as the database sorts: descending with NULLs first, ascending with
  NULLs last; rows that tie keep the order of the table (SQL leaves their order open).
  The ordering columns of the id query of the PC list are read on the order of each base
  row. \<open>LIMIT\<close> and \<open>OFFSET\<close> take the page; the database rejects a negative
  count.
\<close>

definition desc_nulls_first :: "'a::linordered_idom option \<Rightarrow> nat \<times> 'a" where
  "desc_nulls_first v = (case v of None \<Rightarrow> (0, 0) | Some x \<Rightarrow> (1, - x))"

definition asc_nulls_last :: "'a::linordered_idom option \<Rightarrow> nat \<times> 'a" where
  "asc_nulls_last v = (case v of None \<Rightarrow> (1, 0) | Some x \<Rightarrow> (0, x))"

datatype direction = Descending | Ascending

datatype order_by =
  By_created_at_desc | By_success_pay_amount direction | By_total_origin_price direction
  | By_discount_price direction

definition directed :: "direction \<Rightarrow> 'a::linordered_idom option \<Rightarrow> nat \<times> 'a" where
  "directed d v = (case d of Descending \<Rightarrow> desc_nulls_first v | Ascending \<Rightarrow> asc_nulls_last v)"

fun order_rows ::
  "(int \<times> numeric option) list \<Rightarrow> order_by \<Rightarrow> sale_order list \<Rightarrow> sale_order list" where
  "order_rows sub By_created_at_desc rows =
     sort_key (\<lambda>so. desc_nulls_first (created_at so)) rows"
| "order_rows sub (By_success_pay_amount d) rows =
     sort_key (\<lambda>so. directed d (outer_join sub (so_id so))) rows"
| "order_rows sub (By_total_origin_price d) rows =
     sort_key (\<lambda>so. directed d (total_origin_price so)) rows"
| "order_rows sub (By_discount_price d) rows =
     sort_key (\<lambda>so. directed d (discount_price so)) rows"

definition limit_offset :: "int \<Rightarrow> int \<Rightarrow> 'a list \<Rightarrow> py_error + 'a list" where
  "limit_offset page_size offset_count rows =
     (if page_size < 0 \<or> offset_count < 0 then Inl DatabaseError
      else Inr (take (nat page_size) (drop (nat offset_count) rows)))"

subsection \<open>Statements and their results\<close>

text \<open>
  The statements the three operations hand to \<open>db_session.execute\<close>, each with the
  parts the code puts into it: the base conditions, the ordering, \<open>LIMIT\<close> and
  \<open>OFFSET\<close>, or the bound parameters.
\<close>

datatype statement =
    List_main_query "condition list" int int
  | List_count_query "condition list"
  | Order_items_query "string option list"
  | Pc_order_query "condition list" order_by int int
  | Pc_main_query "int list"
  | Pc_amount_count_query "condition list"
  | Detail_main_query int int

record amount_data =
  total_price :: numeric
  total_discount_price :: numeric
  total_receive_price :: numeric
  total_count :: int

record detail_row =
  d_id :: int
  d_order_number :: "string option"
  d_state_name :: string
  d_total_origin_price :: string
  d_discount_price :: string
  d_receive_price :: string

text \<open>
  The main query of the list: the orders that are not disabled and whose id the base
  query selects, one row per order (the outer joins to the discount rows and to the two
  grouped subqueries add no row after the \<open>GROUP BY\<close>), newest first, then the page.
  The count query counts the orders whose id the base query selects. The item query
  returns the items of the given order numbers that are not disabled, by item id. The
  PC list first selects the ids and order numbers of the page, then projects the orders
  with these ids, and sums the amounts over all orders of the base query; the one row
  of that aggregate is the \<open>amount_data\<close> dict. The detail query selects the order
  of the given id and company that is not disabled; of its columns the row keeps the id,
  the order number, the state name and the three amounts.
\<close>

definition list_main_query ::
  "externals \<Rightarrow> database \<Rightarrow> condition list \<Rightarrow> int \<Rightarrow> int \<Rightarrow> py_error + order_row list" where
  "list_main_query ext db conditions page_size offset_count =
     (let base_ids = map so_id (base_query db conditions);
          pay_success_query = list_pay_success_query db base_ids;
          rows = filter (\<lambda>so. disabled so = Some False \<and> so_id so \<in> set base_ids) (orders db)
      in case limit_offset page_size offset_count (order_rows [] By_created_at_desc rows) of
           Inl e \<Rightarrow> Inl e
         | Inr page \<Rightarrow> Inr (map (select_columns ext pay_success_query) page))"

definition list_count_query :: "database \<Rightarrow> condition list \<Rightarrow> int" where
  "list_count_query db conditions =
     (let base_ids = map so_id (base_query db conditions)
      in int (length (filter (\<lambda>so. so_id so \<in> set base_ids) (orders db))))"

definition order_items_query :: "database \<Rightarrow> string option list \<Rightarrow> order_item list" where
  "order_items_query db order_number_list =
     sort_key item_id
       (filter (\<lambda>i. item_order_number i \<noteq> None \<and> item_order_number i \<in> set order_number_list
                    \<and> item_disabled i = Some False) (items db))"

definition pc_order_query ::
  "database \<Rightarrow> condition list \<Rightarrow> order_by \<Rightarrow> int \<Rightarrow> int
     \<Rightarrow> py_error + (int \<times> string option) list" where
  "pc_order_query db conditions ob page_size offset_count =
     (let base = base_query db conditions;
          sub = pay_amount_sub db (map so_id base)
      in case limit_offset page_size offset_count (order_rows sub ob base) of
           Inl e \<Rightarrow> Inl e
         | Inr page \<Rightarrow> Inr (map (\<lambda>so. (so_id so, order_number so)) page))"

definition pc_main_query :: "externals \<Rightarrow> database \<Rightarrow> int list \<Rightarrow> order_row list" where
  "pc_main_query ext db order_ids =
     map (select_columns ext (pc_pay_success_query db order_ids))
       (filter (\<lambda>so. so_id so \<in> set order_ids) (orders db))"

definition coalesce0 :: "numeric option \<Rightarrow> numeric" where
  "coalesce0 v = (case v of None \<Rightarrow> 0 | Some x \<Rightarrow> x)"

definition pc_amount_count_query :: "database \<Rightarrow> condition list \<Rightarrow> amount_data" where
  "pc_amount_count_query db conditions =
     (let base_ids = map so_id (base_query db conditions);
          sub = pay_amount_sub db base_ids;
          rows = filter (\<lambda>so. so_id so \<in> set base_ids) (orders db)
      in \<lparr>total_price =
            coalesce0 (map_option sql_round2 (sql_sum (map total_origin_price rows))),
          total_discount_price =
            coalesce0 (map_option sql_round2 (sql_sum (map discount_price rows))),
          total_receive_price =
            coalesce0 (map_option sql_round2
              (sql_sum (map (\<lambda>so. outer_join sub (so_id so)) rows))),
          total_count = int (length rows)\<rparr>)"

definition detail_main_query ::
  "externals \<Rightarrow> database \<Rightarrow> int \<Rightarrow> int \<Rightarrow> detail_row list" where
  "detail_main_query ext db record_id' company_id' =
     (let disperse = pay_success_query_disperse db record_id' company_id'
      in map (\<lambda>so.
               (let state_case = sale_order_state_trans ext [] (state so)
                in \<lparr>d_id = so_id so,
                    d_order_number = order_number so,
                    d_state_name = state_case,
                    d_total_origin_price =
                      (case total_origin_price so of
                         Some x \<Rightarrow> yen @ numeric_text2 (sql_round2 x) | None \<Rightarrow> ''-''),
                    d_discount_price =
                      (case discount_price so of
                         Some x \<Rightarrow> yen @ numeric_text2 (sql_round2 x) | None \<Rightarrow> ''-''),
                    d_receive_price =
                      detail_receive_price_case state_case
                        (outer_join disperse (so_id so))\<rparr>))
           (filter (\<lambda>so. disabled so = Some False \<and> company_id so = Some company_id'
                        \<and> so_id so = record_id') (orders db)))"

section \<open>The operations\<close>

text \<open>
  The database session holds the tables and, as the trace of its effects, the statements
  executed on it so far. An operation takes the session and returns its result with the
  session after it. An exception ends the operation: the result is then \<open>Inl\<close>.
\<close>

record session =
  tables :: database
  executed :: "statement list"

definition execute :: "statement \<Rightarrow> session \<Rightarrow> session" where
  "execute stmt s = s\<lparr>executed := executed s @ [stmt]\<rparr>"

text \<open>A returned dict is the list of its keys and values, in insertion order.\<close>

datatype response_value =
  Records "order_record list" | Count int | Amounts amount_data

type_synonym response = "(string \<times> response_value) list"

subsection \<open>get_order_items_by_order_number\<close>

definition group_by_order_number ::
  "order_item list \<Rightarrow> (string option \<rightharpoonup> order_item list)" where
  "group_by_order_number rows =
     foldl (\<lambda>data row.
              data(item_order_number row \<mapsto>
                     (case data (item_order_number row) of None \<Rightarrow> [] | Some rs \<Rightarrow> rs)
                     @ [row]))
       Map.empty rows"

definition get_order_items_by_order_number ::
  "string option list \<Rightarrow> session \<Rightarrow> (string option \<rightharpoonup> order_item list) \<times> session" where
  "get_order_items_by_order_number order_number_list s =
     (if order_number_list = [] then (Map.empty, s)
      else (group_by_order_number (order_items_query (tables s) order_number_list),
            execute (Order_items_query order_number_list) s))"

definition attach_goods_info ::
  "externals \<Rightarrow> (string option \<rightharpoonup> order_item list) \<Rightarrow> order_row \<Rightarrow> order_record" where
  "attach_goods_info ext order_items_info r =
     (let order_items =
            (case order_items_info (r_order_number r) of None \<Rightarrow> [] | Some xs \<Rightarrow> xs)
      in order_row.extend r
           (order_record.fields order_items
              (format_number_to_display ext (get_total_purchase_quantity order_items))))"

subsection \<open>do_get_local_order_list_info\<close>

definition do_get_local_order_list_info ::
  "externals \<Rightarrow> query_param_in \<Rightarrow> session \<Rightarrow> (py_error + response) \<times> session" where
  "do_get_local_order_list_info ext query_param_in s =
     (let offset_count = q_page_size query_param_in * (q_page_number query_param_in - 1);
          conditions = list_conditions ext query_param_in;
          s1 = execute (List_main_query conditions (q_page_size query_param_in) offset_count) s
      in case list_main_query ext (tables s) conditions (q_page_size query_param_in)
                offset_count of
           Inl e \<Rightarrow> (Inl e, s1)
         | Inr rows \<Rightarrow>
             (let s2 = execute (List_count_query conditions) s1;
                  count_result = list_count_query (tables s) conditions;
                  order_numbers = map r_order_number rows;
                  (order_items_info, s3) = get_order_items_by_order_number order_numbers s2;
                  records = map (attach_goods_info ext order_items_info) rows
              in (Inr [(''records_list'', Records records), (''all_count'', Count count_result)],
                  s3)))"

subsection \<open>do_get_local_order_pc_list_info\<close>

definition descend_or_ascend :: "string option \<Rightarrow> direction" where
  "descend_or_ascend v = (if v = Some ''descend'' then Descending else Ascending)"

definition pc_order_by :: "query_param_pc_in \<Rightarrow> order_by" where
  "pc_order_by q =
     (if truthy (pc_receive_price q)
        then By_success_pay_amount (descend_or_ascend (pc_receive_price q))
      else if truthy (pc_total_origin_price q)
        then By_total_origin_price (descend_or_ascend (pc_total_origin_price q))
      else if truthy (pc_discount_price q)
        then By_discount_price (descend_or_ascend (pc_discount_price q))
      else By_created_at_desc)"

definition do_get_local_order_pc_list_info ::
  "externals \<Rightarrow> query_param_pc_in \<Rightarrow> session \<Rightarrow> (py_error + response) \<times> session" where
  "do_get_local_order_pc_list_info ext query_param_in s =
     (let offset_count = pc_page_size query_param_in * (pc_page_number query_param_in - 1)
      in case pc_conditions ext query_param_in of
           Inl e \<Rightarrow> (Inl e, s)
         | Inr conditions \<Rightarrow>
             (let order_query =
                    Pc_order_query conditions (pc_order_by query_param_in)
                      (pc_page_size query_param_in) offset_count;
                  s1 = execute order_query s
              in case pc_order_query (tables s) conditions (pc_order_by query_param_in)
                        (pc_page_size query_param_in) offset_count of
                   Inl e \<Rightarrow> (Inl e, s1)
                 | Inr id_rows \<Rightarrow>
                     (let order_ids = map fst id_rows;
                          order_numbers = map snd id_rows
                      in if order_ids = [] then
                           (Inr [(''records_list'', Records []),
                                 (''amount_data'',
                                  Amounts \<lparr>total_price = 0, total_discount_price = 0,
                                           total_receive_price = 0, total_count = 0\<rparr>)],
                            s1)
                         else
                           (let s2 = execute (Pc_main_query order_ids) s1;
                                rows = pc_main_query ext (tables s) order_ids;
                                (order_items_info, s3) =
                                  get_order_items_by_order_number order_numbers s2;
                                records = map (attach_goods_info ext order_items_info) rows;
                                s4 = execute (Pc_amount_count_query conditions) s3;
                                amount_data = pc_amount_count_query (tables s) conditions
                            in (Inr [(''records_list'', Records records),
                                     (''amount_data'', Amounts amount_data)],
                                s4)))))"

subsection \<open>do_get_local_order_detail_info\<close>

definition do_get_local_order_detail_info ::
  "externals \<Rightarrow> int \<Rightarrow> int \<Rightarrow> session \<Rightarrow> detail_row option \<times> session" where
  "do_get_local_order_detail_info ext record_id' company_id' s =
     (let s1 = execute (Detail_main_query record_id' company_id') s;
          result = detail_main_query ext (tables s) record_id' company_id'
      in (case result of [] \<Rightarrow> None | first_row # others \<Rightarrow> Some first_row, s1))"

section \<open>Notions and examples for the properties\<close>

text \<open>
  A condition mentions the order state when it compares the \<open>state\<close> column, at the
  top of the condition or inside a disjunction.
\<close>

fun mentions_state :: "condition \<Rightarrow> bool" where
  "mentions_state (Int_equals col v) = (col = State)"
| "mentions_state (Int_in col vs) = (col = State)"
| "mentions_state (Or_any cs) = list_ex mentions_state cs"
| "mentions_state c = False"

text \<open>
  The states a request filters on: the supplied ones, or the default allow-list when the
  parameter is absent or empty.
\<close>

definition effective_states :: "int list option \<Rightarrow> int list" where
  "effective_states states =
     (if states = None \<or> states = Some [] then [4, 5, 6, 8, 9, 10, 11] else the states)"

text \<open>
  The join of orders and successful payments inside a success-payment subquery, and the
  amounts of the group of one order id.
\<close>

definition joined_payments ::
  "sale_order list \<Rightarrow> order_payment list \<Rightarrow> (sale_order \<Rightarrow> bool)
     \<Rightarrow> (sale_order \<times> order_payment) list" where
  "joined_payments os ps admitted =
     [(so, p). so \<leftarrow> os, p \<leftarrow> ps,
        order_id p \<noteq> None \<and> order_id p = record_id so
        \<and> is_pay_success p = Some True \<and> admitted so]"

definition group_amounts :: "int \<Rightarrow> (sale_order \<times> order_payment) list \<Rightarrow> numeric option list" where
  "group_amounts i joined = [payment_amount p. (so, p) \<leftarrow> joined, so_id so = i]"

text \<open>
  The received amount of an order as the lists are to display it: a dash for an order
  whose state reads created or awaiting payment, otherwise the rounded sum of the amounts
  of its successful payments, or a dash when there is no such sum.
\<close>

definition expected_receive_price :: "externals \<Rightarrow> database \<Rightarrow> sale_order \<Rightarrow> string" where
  "expected_receive_price ext db so =
     (if sale_order_state_trans ext [] (state so) = created_name
         \<or> sale_order_state_trans ext [] (state so) = awaiting_payment_name
      then ''-''
      else case sql_sum (map payment_amount (successful_payments db so)) of
             None \<Rightarrow> ''-''
           | Some paid \<Rightarrow> numeric_text2 (sql_round2 paid))"

text \<open>Concrete parameters, requests and filters on which the properties are run.\<close>

definition example_externals :: externals where
  "example_externals =
     \<lparr>order_state_enum =
        [(1, created_name), (2, awaiting_payment_name), (4, ''paid''), (5, ''completed'')],
      store_order_code = 1,
      default_escape_char = CHR ''/'',
      format_number_to_display = (\<lambda>x. numeric_text2 (sql_round2 x))\<rparr>"

definition example_query :: query_param_in where
  "example_query =
     \<lparr>q_company_id = 1, q_order_num_or_user = None, q_store_ids = None,
      q_channel_ids = None, q_states = None, q_operater_name_or_phone = None,
      q_create_at_start = None, q_create_at_end = None, q_business_day_start = None,
      q_business_day_end = None, q_payment_method = None, q_page_size = 10,
      q_page_number = 1\<rparr>"

definition example_pc_query :: query_param_pc_in where
  "example_pc_query =
     \<lparr>pc_company_id = 1, pc_store_ids = None, pc_order_number = None,
      pc_product_name = None, pc_states = None, pc_amount_filter = None,
      pc_payment_method = None, pc_create_at_start = None, pc_create_at_end = None,
      pc_channel_ids = None, pc_user_name_or_phone = None,
      pc_operater_name_or_phone = None, pc_business_day_start = None,
      pc_business_day_end = None, pc_receive_price = None, pc_total_origin_price = None,
      pc_discount_price = None, pc_page_size = 10, pc_page_number = 1\<rparr>"

definition example_filter :: "string \<Rightarrow> comparison_operator \<Rightarrow> amount_filter" where
  "example_filter t op = \<lparr>amount_type = t, operator = op, amount_value = 100\<rparr>"

text \<open>
  Example tables: an order awaiting payment with one successful payment of 50.00, and a
  paid order with successful payments of 12.345 and 7.655, a failed payment and a pending
  one. The example requests ask for both states; the PC request orders by the received
  amount.
\<close>

definition example_order :: "int \<Rightarrow> int \<Rightarrow> string \<Rightarrow> timestamp \<Rightarrow> sale_order" where
  "example_order i st operater t =
     \<lparr>so_id = i, record_id = Some (100 + i), disabled = Some False, company_id = Some 1,
      order_source = Some 1, order_number = Some (if i = 1 then ''SO-1'' else ''SO-2''),
      member_name = None, member_phone = None, store_team_info_id = Some 1,
      channel_id = Some 1, state = Some st, operater_name = Some operater,
      operater_phone = None, shopping_guide_name = None, created_at = Some t,
      business_day = Some t, total_origin_price = Some 60, discount_price = Some 10\<rparr>"

definition awaiting_order :: sale_order where
  "awaiting_order = example_order 1 2 ''Zhang'' 10"

definition paid_order :: sale_order where
  "paid_order = example_order 2 4 ''Li'' 20"

definition example_payment :: "int \<Rightarrow> bool option \<Rightarrow> numeric \<Rightarrow> order_payment" where
  "example_payment oid ok amount =
     \<lparr>order_id = Some oid, payment_method_id = Some 1, is_pay_success = ok,
      payment_amount = Some amount\<rparr>"

definition example_database :: database where
  "example_database =
     \<lparr>orders = [awaiting_order, paid_order],
      payments =
        [example_payment 101 (Some True) 50,
         example_payment 102 (Some True) (12345 / 1000),
         example_payment 102 (Some True) (7655 / 1000),
         example_payment 102 (Some False) 99,
         example_payment 102 None 5],
      items = [example_item 1 (Some (1 / 10)), example_item 2 None,
               example_item 3 (Some (2 / 10))]\<rparr>"

definition example_session :: session where
  "example_session = \<lparr>tables = example_database, executed = []\<rparr>"

definition both_states_query :: query_param_in where
  "both_states_query = example_query\<lparr>q_states := Some [2, 4]\<rparr>"

definition both_states_pc_query :: query_param_pc_in where
  "both_states_pc_query =
     example_pc_query\<lparr>pc_states := Some [2, 4], pc_receive_price := Some ''descend''\<rparr>"

definition both_states_conditions :: "condition list" where
  "both_states_conditions =
     [Disabled_is_false, Int_equals Company_id 1, Int_equals Order_source 1,
      Int_in State [2, 4]]"

lemmas example_defs = example_database_def example_order_def example_payment_def
  example_item_def example_externals_def example_query_def example_pc_query_def
  example_session_def awaiting_order_def paid_order_def both_states_query_def
  both_states_pc_query_def both_states_conditions_def

text \<open>The statements an operation has added to the trace of the session.\<close>

definition newly_executed :: "session \<Rightarrow> session \<Rightarrow> statement list" where
  "newly_executed before after = drop (length (executed before)) (executed after)"

text \<open>The keys of a returned dict, when the operation returns one.\<close>

definition response_keys :: "py_error + response \<Rightarrow> string list option" where
  "response_keys result =
     (case result of Inl e \<Rightarrow> None | Inr response \<Rightarrow> Some (map fst response))"


text \<open>Requests for a second page.\<close>

definition second_page_pc_query :: query_param_pc_in where
  "second_page_pc_query = both_states_pc_query\<lparr>pc_page_number := 2\<rparr>"



text \<open>Requests that search for a percent sign.\<close>

definition percent_operater_query :: query_param_in where
  "percent_operater_query = example_query\<lparr>q_operater_name_or_phone := Some ''%''\<rparr>"

definition percent_keyword_query :: query_param_in where
  "percent_keyword_query = example_query\<lparr>q_order_num_or_user := Some ''%''\<rparr>"

section \<open>Properties\<close>

subsection \<open>Refund aggregation status\<close>

text \<open>
  C2. For every refund id and every success map, the result code is 0 exactly when the
  id is not a key of the map, 1 exactly when the id is a key mapped to None (pending),
  2 exactly when it is mapped to True and 3 exactly when it is mapped to False. An id
  present with value None therefore yields 1 and never 0.
\<close>

theorem convert_aggregated_refund_result_code_cases:
  "(convert_aggregated_refund_result_code refund_id m = 0) = (refund_id \<notin> dom m)
   \<and> (convert_aggregated_refund_result_code refund_id m = 1) = (m refund_id = Some None)
   \<and> (convert_aggregated_refund_result_code refund_id m = 2) = (m refund_id = Some (Some True))
   \<and> (convert_aggregated_refund_result_code refund_id m = 3) = (m refund_id = Some (Some False))"
proof (cases "m refund_id")
  case None
  then show ?thesis
    by (simp add: convert_aggregated_refund_result_code_def dom_def)
next
  case (Some v)
  then have in_dom: "refund_id \<in> dom m"
    by (simp add: dom_def)
  show ?thesis
  proof (cases v)
    case None
    with Some in_dom show ?thesis
      by (simp add: convert_aggregated_refund_result_code_def)
  next
    case inner: (Some b)
    with Some in_dom show ?thesis
      by (cases b) (simp_all add: convert_aggregated_refund_result_code_def)
  qed
qed

theorem convert_aggregated_refund_result_code_pending_witness:
  "convert_aggregated_refund_result_code 7 [7 \<mapsto> None, 8 \<mapsto> Some True] = 1
   \<and> convert_aggregated_refund_result_code 7 [7 \<mapsto> None, 8 \<mapsto> Some True] \<noteq> 0
   \<and> convert_aggregated_refund_result_code 8 [7 \<mapsto> None, 8 \<mapsto> Some True] = 2
   \<and> convert_aggregated_refund_result_code 9 [7 \<mapsto> None, 8 \<mapsto> Some True] = 0"
  using convert_aggregated_refund_result_code_cases [of 7 "[7 \<mapsto> None, 8 \<mapsto> Some True]"]
    convert_aggregated_refund_result_code_cases [of 8 "[7 \<mapsto> None, 8 \<mapsto> Some True]"]
    convert_aggregated_refund_result_code_cases [of 9 "[7 \<mapsto> None, 8 \<mapsto> Some True]"]
  by (simp add: dom_def)

subsection \<open>Total purchase quantity\<close>




subsection \<open>Rows of the base query\<close>

lemma sql_and_true: "(sql_and bs = Some True) = (\<forall>b \<in> set bs. b = Some True)"
  by (cases "Some False \<in> set bs"; cases "None \<in> set bs")
    (auto simp: sql_and_def, (metis (full_types) not_Some_eq)+)

lemma base_query_satisfies:
  assumes "so \<in> set (base_query db conditions)" and "c \<in> set conditions"
  shows "eval_condition db so c = Some True"
proof -
  from assms(1) have "sql_and (map (eval_condition db so) conditions) = Some True"
    by (simp add: base_query_def)
  with assms(2) show ?thesis
    by (auto simp: sql_and_true)
qed


lemma base_query_state_in:
  assumes "so \<in> set (base_query db conditions)"
    and "filter mentions_state conditions = [Int_in State allowed]"
  shows "\<exists>st \<in> set allowed. state so = Some st"
proof -
  from assms(2) have "Int_in State allowed \<in> set (filter mentions_state conditions)"
    by simp
  then have "Int_in State allowed \<in> set conditions"
    by simp
  from base_query_satisfies [OF assms(1) this] show ?thesis
    by auto
qed

subsection \<open>Default state filter\<close>

lemma filter_when_truthy:
  "(\<And>xs. filter P (f xs) = []) \<Longrightarrow> filter P (when_truthy v f) = []"
  by (simp add: when_truthy_def split: option.splits)

lemma filter_for_given_time:
  "filter mentions_state (for_given v (Time_at_least col)) = []"
  "filter mentions_state (for_given v (Time_at_most col)) = []"
  by (cases v; simp add: for_given_def)+

lemma get_amount_condition_shape:
  "get_amount_condition af = Inr (Some c) \<Longrightarrow> \<exists>col cmp v. c = Amount_compare col cmp v"
  by (auto simp: get_amount_condition_def Let_def split: option.splits)

lemma amount_conditions_no_state:
  "amount_conditions afs = Inr cs \<Longrightarrow> filter mentions_state cs = []"
proof (induction afs arbitrary: cs)
  case Nil
  then show ?case by simp
next
  case (Cons af rest)
  from Cons.prems obtain c cs' where
    c: "get_amount_condition af = Inr c" and rest: "amount_conditions rest = Inr cs'"
    and cs: "cs = (case c of None \<Rightarrow> [] | Some x \<Rightarrow> [x]) @ cs'"
    by (auto split: sum.splits)
  have "filter mentions_state (case c of None \<Rightarrow> [] | Some x \<Rightarrow> [x]) = []"
  proof (cases c)
    case None
    then show ?thesis by simp
  next
    case (Some x)
    with c get_amount_condition_shape [of af x] show ?thesis by auto
  qed
  with Cons.IH [OF rest] cs show ?case by simp
qed

lemma list_conditions_state:
  "filter mentions_state (list_conditions ext q) =
     [Int_in State (if truthy (q_states q) then the (q_states q) else [4, 5, 6, 8, 9, 10, 11])]"
  by (simp add: list_conditions_def filter_when_truthy filter_for_given_time Let_def)

lemma pc_conditions_with_state:
  "filter mentions_state amounts = [] \<Longrightarrow>
   filter mentions_state (pc_conditions_with ext p amounts) =
     [Int_in State (if truthy (pc_states p) then the (pc_states p) else [4, 5, 6, 8, 9, 10, 11])]"
  by (simp add: pc_conditions_with_def filter_when_truthy filter_for_given_time)

lemma pc_conditions_state:
  assumes "pc_conditions ext p = Inr cs"
  shows "filter mentions_state cs =
     [Int_in State (if truthy (pc_states p) then the (pc_states p) else [4, 5, 6, 8, 9, 10, 11])]"
proof -
  from assms obtain amounts where
    am: "pc_amount_conditions p = Inr amounts" and cs: "cs = pc_conditions_with ext p amounts"
    by (auto simp: pc_conditions_def split: sum.splits)
  from am have "filter mentions_state amounts = []"
    by (auto simp: pc_amount_conditions_def split: if_splits dest: amount_conditions_no_state)
  then show ?thesis
    unfolding cs by (rule pc_conditions_with_state)
qed

text \<open>
  C7. For every list query whose states parameter is absent or empty, the assembled
  condition list constrains the order state to the fixed allow-list of lifecycle codes
  4, 5, 6, 8, 9, 10, 11; when a non-empty states list is supplied, the condition uses
  exactly the supplied states instead. Both list-query variants apply the same default:
  in each, the one condition on the state is the \<open>IN\<close> over that list, and every
  order the base query selects has one of these states.
\<close>

theorem default_state_allow_list:
  "filter mentions_state (list_conditions ext q) = [Int_in State (effective_states (q_states q))]
   \<and> (\<forall>so \<in> set (base_query db (list_conditions ext q)).
         \<exists>st \<in> set (effective_states (q_states q)). state so = Some st)
   \<and> (\<forall>cs. pc_conditions ext p = Inr cs \<longrightarrow>
          filter mentions_state cs = [Int_in State (effective_states (pc_states p))]
          \<and> (\<forall>so \<in> set (base_query db cs).
                \<exists>st \<in> set (effective_states (pc_states p)). state so = Some st))"
proof -
  have t: "\<And>v::int list option.
      (if truthy v then the v else [4, 5, 6, 8, 9, 10, 11]) = effective_states v"
    by (simp add: truthy_def effective_states_def split: option.splits)
  have list: "filter mentions_state (list_conditions ext q) =
      [Int_in State (effective_states (q_states q))]"
    using list_conditions_state [of ext q] by (simp only: t)
  have pc: "\<And>cs. pc_conditions ext p = Inr cs \<Longrightarrow>
      filter mentions_state cs = [Int_in State (effective_states (pc_states p))]"
    using pc_conditions_state [of ext p] by (simp only: t)
  from list pc show ?thesis
    by (blast intro: base_query_state_in)
qed

lemma example_pc_conditions:
  "pc_conditions example_externals example_pc_query =
     Inr [Disabled_is_false, Int_equals Company_id 1, Int_equals Order_source 1,
          Int_in State [4, 5, 6, 8, 9, 10, 11]]"
  by (simp add: pc_conditions_def pc_conditions_with_def pc_amount_conditions_def
      example_pc_query_def example_externals_def truthy_def when_truthy_def for_given_def)

theorem default_state_allow_list_witness:
  "filter mentions_state (list_conditions example_externals example_query) =
     [Int_in State [4, 5, 6, 8, 9, 10, 11]]
   \<and> filter mentions_state (list_conditions example_externals both_states_query) =
     [Int_in State [2, 4]]
   \<and> awaiting_order \<in> set (base_query example_database
                              (list_conditions example_externals both_states_query))
   \<and> (\<exists>st \<in> set [2, 4]. state awaiting_order = Some st)
   \<and> pc_conditions example_externals example_pc_query =
     Inr [Disabled_is_false, Int_equals Company_id 1, Int_equals Order_source 1,
          Int_in State [4, 5, 6, 8, 9, 10, 11]]
   \<and> filter mentions_state
       [Disabled_is_false, Int_equals Company_id 1, Int_equals Order_source 1,
        Int_in State [4, 5, 6, 8, 9, 10, 11]] = [Int_in State [4, 5, 6, 8, 9, 10, 11]]"
proof -
  have eff: "effective_states (q_states example_query) = [4, 5, 6, 8, 9, 10, 11]"
    "effective_states (q_states both_states_query) = [2, 4]"
    "effective_states (pc_states example_pc_query) = [4, 5, 6, 8, 9, 10, 11]"
    by (simp_all add: effective_states_def example_query_def both_states_query_def
        example_pc_query_def)
  have conds: "list_conditions example_externals both_states_query = both_states_conditions"
    by (simp add: list_conditions_def example_defs when_truthy_def for_given_def truthy_def)
  have base: "base_query example_database both_states_conditions = [awaiting_order, paid_order]"
    by (simp add: base_query_def example_defs sql_and_def)
  note default = default_state_allow_list
    [of example_externals example_query example_database example_pc_query]
  note both = default_state_allow_list
    [of example_externals both_states_query example_database example_pc_query]
  from both have "\<exists>st \<in> set [2, 4]. state awaiting_order = Some st"
    by (simp add: eff conds base)
  with default both example_pc_conditions show ?thesis
    by (simp add: eff conds base)
qed

subsection \<open>Amount filters\<close>

lemma amount_conditions_skip:
  assumes "get_amount_condition af = Inr None"
  shows "amount_conditions (before @ af # after) = amount_conditions (before @ after)"
  using assms by (induction before) (simp_all split: sum.splits)

text \<open>
  C5. For every amount filter whose amount_type is not one of total_price,
  discount_price and receive_price, get_amount_condition returns no predicate (None),
  and the PC list skips it: the conditions built with the filter in the request are the
  conditions built without it.
\<close>

theorem unknown_amount_type_ignored:
  assumes "amount_type af \<notin> {''total_price'', ''discount_price'', ''receive_price''}"
  shows "get_amount_condition af = Inr None
    \<and> amount_conditions (before @ af # after) = amount_conditions (before @ after)
    \<and> pc_conditions ext (q\<lparr>pc_amount_filter := Some (before @ af # after)\<rparr>) =
      pc_conditions ext (q\<lparr>pc_amount_filter := Some (before @ after)\<rparr>)"
proof -
  from assms have none: "get_amount_condition af = Inr None"
    by (simp add: get_amount_condition_def amount_field_mapping_def)
  then have skip: "amount_conditions (before @ af # after) = amount_conditions (before @ after)"
    by (rule amount_conditions_skip)
  have "pc_amount_conditions (q\<lparr>pc_amount_filter := Some (before @ af # after)\<rparr>) =
      pc_amount_conditions (q\<lparr>pc_amount_filter := Some (before @ after)\<rparr>)"
    by (simp add: pc_amount_conditions_def truthy_def skip)
  moreover have "\<And>x amounts. pc_conditions_with ext (q\<lparr>pc_amount_filter := x\<rparr>) amounts =
      pc_conditions_with ext q amounts"
    by (simp add: pc_conditions_with_def)
  ultimately have "pc_conditions ext (q\<lparr>pc_amount_filter := Some (before @ af # after)\<rparr>) =
      pc_conditions ext (q\<lparr>pc_amount_filter := Some (before @ after)\<rparr>)"
    by (simp add: pc_conditions_def split: sum.splits)
  with none skip show ?thesis by simp
qed

theorem unknown_amount_type_ignored_witness:
  "get_amount_condition (example_filter ''refund_price'' GT) = Inr None
   \<and> pc_conditions example_externals
       (example_pc_query\<lparr>pc_amount_filter := Some [example_filter ''refund_price'' GT]\<rparr>) =
     Inr [Disabled_is_false, Int_equals Company_id 1, Int_equals Order_source 1,
          Int_in State [4, 5, 6, 8, 9, 10, 11]]
   \<and> pc_conditions example_externals
       (example_pc_query\<lparr>pc_amount_filter :=
          Some [example_filter ''refund_price'' GT, example_filter ''total_price'' GTE]\<rparr>) =
     Inr [Disabled_is_false, Int_equals Company_id 1, Int_equals Order_source 1,
          Int_in State [4, 5, 6, 8, 9, 10, 11],
          Amount_compare Total_origin_price Cmp_ge 100]"
proof -
  have unknown:
    "amount_type (example_filter ''refund_price'' GT)
       \<notin> {''total_price'', ''discount_price'', ''receive_price''}"
    by (simp add: example_filter_def)
  have known:
    "pc_conditions example_externals
       (example_pc_query\<lparr>pc_amount_filter := Some ([] @ [example_filter ''total_price'' GTE])\<rparr>) =
     Inr [Disabled_is_false, Int_equals Company_id 1, Int_equals Order_source 1,
          Int_in State [4, 5, 6, 8, 9, 10, 11],
          Amount_compare Total_origin_price Cmp_ge 100]"
    by (simp add: pc_conditions_def pc_conditions_with_def pc_amount_conditions_def
        example_pc_query_def example_externals_def truthy_def
        when_truthy_def for_given_def get_amount_condition_def amount_field_mapping_def
        operator_mapping_def example_filter_def)
  have none:
    "pc_conditions example_externals (example_pc_query\<lparr>pc_amount_filter := Some ([] @ [])\<rparr>) =
     Inr [Disabled_is_false, Int_equals Company_id 1, Int_equals Order_source 1,
          Int_in State [4, 5, 6, 8, 9, 10, 11]]"
    by (simp add: pc_conditions_def pc_conditions_with_def pc_amount_conditions_def
        example_pc_query_def example_externals_def truthy_def when_truthy_def for_given_def)
  show ?thesis
    using unknown_amount_type_ignored [OF unknown, of "[]" "[]" example_externals example_pc_query]
      unknown_amount_type_ignored [OF unknown, of "[]" "[example_filter ''total_price'' GTE]"
        example_externals example_pc_query]
      known none
    by simp
qed

text \<open>
  C6. For every amount filter with a recognized amount_type and an operator outside the
  six comparison operators, get_amount_condition raises (the KeyError of the dict
  subscript) instead of returning no predicate or a predicate; the PC list that meets
  such a filter first ends with that error before it executes any statement.
\<close>

theorem unlisted_operator_raises:
  assumes "amount_type af \<in> {''total_price'', ''discount_price'', ''receive_price''}"
    and "operator af \<notin> {GT, GTE, LT, LTE, EQ, NEQ}"
  shows "get_amount_condition af = Inl KeyError
    \<and> do_get_local_order_pc_list_info ext (q\<lparr>pc_amount_filter := Some (af # rest)\<rparr>) s =
        (Inl KeyError, s)"
proof -
  from assms(1) obtain mapped where "amount_field_mapping (amount_type af) = Some mapped"
    by (auto simp: amount_field_mapping_def)
  moreover from assms(2) have "operator_mapping (operator af) = None"
    by (simp add: operator_mapping_def)
  ultimately have raised: "get_amount_condition af = Inl KeyError"
    by (simp add: get_amount_condition_def Let_def)
  then have "pc_conditions ext (q\<lparr>pc_amount_filter := Some (af # rest)\<rparr>) = Inl KeyError"
    by (simp add: pc_conditions_def pc_amount_conditions_def truthy_def)
  then have "do_get_local_order_pc_list_info ext (q\<lparr>pc_amount_filter := Some (af # rest)\<rparr>) s =
      (Inl KeyError, s)"
    by (simp add: do_get_local_order_pc_list_info_def Let_def)
  with raised show ?thesis by simp
qed

theorem unlisted_operator_raises_witness:
  "get_amount_condition (example_filter ''receive_price'' (Unlisted ''~'')) = Inl KeyError
   \<and> do_get_local_order_pc_list_info example_externals
       (example_pc_query\<lparr>pc_amount_filter :=
          Some [example_filter ''receive_price'' (Unlisted ''~'')]\<rparr>) example_session =
     (Inl KeyError, example_session)
   \<and> get_amount_condition (example_filter ''receive_price'' LT) =
     Inr (Some (Amount_compare Success_payment_sum Cmp_lt 100))"
proof -
  have "get_amount_condition (example_filter ''receive_price'' LT) =
     Inr (Some (Amount_compare Success_payment_sum Cmp_lt 100))"
    by (simp add: get_amount_condition_def amount_field_mapping_def operator_mapping_def
        example_filter_def)
  then show ?thesis
    using unlisted_operator_raises [where af = "example_filter ''receive_price'' (Unlisted ''~'')"
        and ext = example_externals and q = example_pc_query and rest = "[]"
        and s = example_session]
    by (simp add: example_filter_def)
qed

subsection \<open>Received amount\<close>

lemma payment_sum_subquery_joined:
  "payment_sum_subquery db admitted =
     map (\<lambda>i. (i, sql_sum [payment_amount p.
              (so, p) \<leftarrow> joined_payments (orders db) (payments db) admitted, so_id so = i]))
       (remdups (map (\<lambda>(so, p). so_id so)
          (joined_payments (orders db) (payments db) admitted)))"
  by (simp add: payment_sum_subquery_def joined_payments_def Let_def)

lemma concat_map_if:
  "concat (map (\<lambda>p. if P p then [f p] else []) ps) = map f (filter P ps)"
  by (induction ps) simp_all

lemma joined_payments_Cons:
  "joined_payments (x # xs) ps admitted =
     map (Pair x) (filter (\<lambda>p. order_id p \<noteq> None \<and> order_id p = record_id x
                              \<and> is_pay_success p = Some True \<and> admitted x) ps)
     @ joined_payments xs ps admitted"
  unfolding joined_payments_def by (simp only: list.map concat.simps concat_map_if)

lemma joined_payments_Nil: "joined_payments [] ps admitted = []"
  by (simp add: joined_payments_def)

lemma group_amounts_append:
  "group_amounts i (xs @ ys) = group_amounts i xs @ group_amounts i ys"
  by (simp add: group_amounts_def)

lemma group_amounts_pairs:
  "group_amounts i (map (Pair x) ps) = (if so_id x = i then map payment_amount ps else [])"
  by (induction ps) (simp_all add: group_amounts_def)

lemma joined_ids:
  "set (map (\<lambda>(so, p). so_id so) (joined_payments os ps admitted)) \<subseteq> so_id ` set os"
  by (induction os) (auto simp: joined_payments_Nil joined_payments_Cons)

lemma group_amounts_absent:
  "i \<notin> so_id ` set os \<Longrightarrow> group_amounts i (joined_payments os ps admitted) = []"
  by (induction os)
    (simp_all add: joined_payments_Nil joined_payments_Cons group_amounts_append
      group_amounts_pairs, simp add: group_amounts_def)

lemma group_amounts_of_order:
  assumes "distinct (map so_id os)" and "so \<in> set os" and "admitted so"
  shows "group_amounts (so_id so) (joined_payments os ps admitted) =
     map payment_amount
       (filter (\<lambda>p. order_id p \<noteq> None \<and> order_id p = record_id so
                    \<and> is_pay_success p = Some True) ps)"
  using assms
proof (induction os)
  case Nil
  then show ?case by simp
next
  case (Cons x xs)
  show ?case
  proof (cases "x = so")
    case True
    with Cons.prems have "so_id so \<notin> so_id ` set xs" by auto
    then have "group_amounts (so_id so) (joined_payments xs ps admitted) = []"
      by (rule group_amounts_absent)
    with True Cons.prems(3) show ?thesis
      by (simp add: joined_payments_Cons group_amounts_append group_amounts_pairs)
  next
    case False
    with Cons.prems have in_rest: "so \<in> set xs" and ne: "so_id x \<noteq> so_id so"
      by auto
    from Cons.prems have "distinct (map so_id xs)" by simp
    from Cons.IH [OF this in_rest Cons.prems(3)] ne show ?thesis
      by (simp add: joined_payments_Cons group_amounts_append group_amounts_pairs)
  qed
qed

lemma sql_sum_Nil: "sql_sum [] = None"
  by (simp add: sql_sum_def non_null_def)

lemma group_amounts_empty_if_no_id:
  "i \<notin> set (map (\<lambda>(so, p). so_id so) joined) \<Longrightarrow> group_amounts i joined = []"
  by (induction joined) (auto simp: group_amounts_def)

lemma outer_join_computed:
  "outer_join (map (\<lambda>i. (i, f i)) ids) i = (if i \<in> set ids then f i else None)"
  by (induction ids) (auto simp: outer_join_def)

lemma outer_join_rounded2_computed:
  "outer_join (rounded2 (map (\<lambda>i. (i, f i)) ids)) i =
     (if i \<in> set ids then map_option sql_round2 (f i) else None)"
  by (induction ids) (auto simp: outer_join_def rounded2_def)

lemma outer_join_payment_sum:
  assumes "distinct (map so_id (orders db))" and "so \<in> set (orders db)" and "admitted so"
  shows "outer_join (payment_sum_subquery db admitted) (so_id so) =
           sql_sum (map payment_amount (successful_payments db so))"
    and "outer_join (rounded2 (payment_sum_subquery db admitted)) (so_id so) =
           map_option sql_round2 (sql_sum (map payment_amount (successful_payments db so)))"
proof -
  let ?joined = "joined_payments (orders db) (payments db) admitted"
  have group: "group_amounts (so_id so) ?joined =
      map payment_amount (successful_payments db so)"
    using assms group_amounts_of_order [of "orders db" so admitted "payments db"]
    by (simp add: successful_payments_def)
  have sub: "payment_sum_subquery db admitted =
      map (\<lambda>i. (i, sql_sum (group_amounts i ?joined)))
        (remdups (map (\<lambda>(so, p). so_id so) ?joined))"
    by (simp add: payment_sum_subquery_joined group_amounts_def)
  have absent: "so_id so \<notin> set (map (\<lambda>(so, p). so_id so) ?joined) \<Longrightarrow>
      sql_sum (map payment_amount (successful_payments db so)) = None"
    using group_amounts_empty_if_no_id [of "so_id so" ?joined] group
    by (simp add: sql_sum_Nil)
  show "outer_join (payment_sum_subquery db admitted) (so_id so) =
           sql_sum (map payment_amount (successful_payments db so))"
    unfolding sub outer_join_computed using group absent by auto
  show "outer_join (rounded2 (payment_sum_subquery db admitted)) (so_id so) =
           map_option sql_round2 (sql_sum (map payment_amount (successful_payments db so)))"
    unfolding sub outer_join_rounded2_computed using group absent by auto
qed

lemma limit_offset_subset:
  "limit_offset page_size offset_count rows = Inr page \<Longrightarrow> set page \<subseteq> set rows"
  by (auto simp: limit_offset_def split: if_splits dest: in_set_takeD in_set_dropD)

lemma set_order_rows: "set (order_rows sub ob rows) = set rows"
  by (cases ob) simp_all

lemma attach_goods_info_columns:
  "r_id (attach_goods_info ext info row) = r_id row"
  "r_receive_price (attach_goods_info ext info row) = r_receive_price row"
  "r_state_name (attach_goods_info ext info row) = r_state_name row"
  by (simp_all add: attach_goods_info_def Let_def order_row.defs)

lemma list_records_origin:
  assumes "fst (do_get_local_order_list_info ext q s) = Inr response"
    and "(''records_list'', Records records) \<in> set response"
    and "r \<in> set records"
  shows "\<exists>so \<in> set (orders (tables s)). \<exists>row info.
           disabled so = Some False
           \<and> so_id so \<in> set (map so_id (base_query (tables s) (list_conditions ext q)))
           \<and> row = select_columns ext
                 (list_pay_success_query (tables s)
                    (map so_id (base_query (tables s) (list_conditions ext q)))) so
           \<and> r = attach_goods_info ext info row"
proof -
  let ?conds = "list_conditions ext q"
  let ?off = "q_page_size q * (q_page_number q - 1)"
  from assms(1) obtain rows info where
    main: "list_main_query ext (tables s) ?conds (q_page_size q) ?off = Inr rows"
    and resp: "response =
       [(''records_list'', Records (map (attach_goods_info ext info) rows)),
        (''all_count'', Count (list_count_query (tables s) ?conds))]"
    by (auto simp: do_get_local_order_list_info_def Let_def split_def split: sum.splits)
  from resp assms(2) have records: "records = map (attach_goods_info ext info) rows"
    by simp
  with assms(3) obtain row where row: "row \<in> set rows" and r: "r = attach_goods_info ext info row"
    by auto
  let ?ids = "map so_id (base_query (tables s) ?conds)"
  from main obtain page where
    page: "limit_offset (q_page_size q) ?off
             (order_rows [] By_created_at_desc
                (filter (\<lambda>so. disabled so = Some False \<and> so_id so \<in> set ?ids)
                   (orders (tables s)))) = Inr page"
    and rows: "rows = map (select_columns ext (list_pay_success_query (tables s) ?ids)) page"
    by (auto simp: list_main_query_def Let_def split: sum.splits)
  from row rows obtain so where so: "so \<in> set page"
    and row_so: "row = select_columns ext (list_pay_success_query (tables s) ?ids) so"
    by auto
  from limit_offset_subset [OF page] so
  have "so \<in> set (filter (\<lambda>so. disabled so = Some False \<and> so_id so \<in> set ?ids)
                   (orders (tables s)))"
    by (auto simp: set_order_rows simp del: order_rows.simps)
  with row_so r show ?thesis by auto
qed

lemma pc_records_origin:
  assumes "fst (do_get_local_order_pc_list_info ext p s) = Inr response"
    and "(''records_list'', Records records) \<in> set response"
    and "r \<in> set records"
  shows "\<exists>so \<in> set (orders (tables s)). \<exists>row info order_ids.
           so_id so \<in> set order_ids
           \<and> row = select_columns ext (pc_pay_success_query (tables s) order_ids) so
           \<and> r = attach_goods_info ext info row"
proof -
  let ?off = "pc_page_size p * (pc_page_number p - 1)"
  from assms(1) obtain conds where conds: "pc_conditions ext p = Inr conds"
    by (auto simp: do_get_local_order_pc_list_info_def Let_def split: sum.splits)
  with assms(1) obtain id_rows where
    ids: "pc_order_query (tables s) conds (pc_order_by p) (pc_page_size p) ?off = Inr id_rows"
    by (auto simp: do_get_local_order_pc_list_info_def Let_def split: sum.splits)
  show ?thesis
  proof (cases "map fst id_rows = []")
    case True
    with assms(1) conds ids have "response =
        [(''records_list'', Records []),
         (''amount_data'', Amounts \<lparr>total_price = 0, total_discount_price = 0,
                                    total_receive_price = 0, total_count = 0\<rparr>)]"
      by (auto simp: do_get_local_order_pc_list_info_def Let_def)
    with assms(2,3) show ?thesis by auto
  next
    case False
    with assms(1) conds ids obtain info where "response =
        [(''records_list'',
          Records (map (attach_goods_info ext info)
                     (pc_main_query ext (tables s) (map fst id_rows)))),
         (''amount_data'', Amounts (pc_amount_count_query (tables s) conds))]"
      by (auto simp: do_get_local_order_pc_list_info_def Let_def split_def)
    with assms(2) have
      "records = map (attach_goods_info ext info) (pc_main_query ext (tables s) (map fst id_rows))"
      by simp
    with assms(3) obtain row where
      row: "row \<in> set (pc_main_query ext (tables s) (map fst id_rows))"
      and r: "r = attach_goods_info ext info row"
      by auto
    from row obtain so where "so \<in> set (orders (tables s))" "so_id so \<in> set (map fst id_rows)"
      "row = select_columns ext (pc_pay_success_query (tables s) (map fst id_rows)) so"
      by (auto simp: pc_main_query_def)
    with r show ?thesis by blast
  qed
qed

lemma select_columns_receive_price:
  assumes "outer_join sub (so_id so) =
     map_option sql_round2 (sql_sum (map payment_amount (successful_payments db so)))"
  shows "r_receive_price (select_columns ext sub so) = expected_receive_price ext db so"
  using assms
  by (auto simp: select_columns_def Let_def receive_price_case_def expected_receive_price_def
      split: option.splits)

text \<open>
  C1. In the list projection and in the PC list projection, the received amount
  (receive_price) of every returned record is the literal dash when the state of its
  order reads created or awaiting payment, whatever the successful payments sum to; for
  any other state it is the rounded sum of the payment amounts whose success flag is
  true, or the dash when that sum is absent. Order ids are a primary key.
\<close>

theorem receive_price_of_listed_orders:
  assumes "distinct (map so_id (orders (tables s)))"
    and "fst (do_get_local_order_list_info ext q s) = Inr response
         \<or> fst (do_get_local_order_pc_list_info ext p s) = Inr response"
    and "(''records_list'', Records records) \<in> set response"
    and "r \<in> set records"
  shows "\<exists>so \<in> set (orders (tables s)).
           so_id so = r_id r
           \<and> r_state_name r = sale_order_state_trans ext [] (state so)
           \<and> r_receive_price r = expected_receive_price ext (tables s) so"
  using assms(2)
proof
  assume "fst (do_get_local_order_list_info ext q s) = Inr response"
  from list_records_origin [OF this assms(3,4)] obtain so row info where
    so: "so \<in> set (orders (tables s))" and en: "disabled so = Some False"
    and base: "so_id so \<in> set (map so_id (base_query (tables s) (list_conditions ext q)))"
    and row: "row = select_columns ext
                 (list_pay_success_query (tables s)
                    (map so_id (base_query (tables s) (list_conditions ext q)))) so"
    and r: "r = attach_goods_info ext info row"
    by blast
  have "r_receive_price row = expected_receive_price ext (tables s) so"
    unfolding row list_pay_success_query_def
    by (rule select_columns_receive_price, rule outer_join_payment_sum(2) [OF assms(1) so])
      (use en base in simp)
  with so row r show ?thesis
    by (auto simp: attach_goods_info_columns select_columns_def Let_def)
next
  assume "fst (do_get_local_order_pc_list_info ext p s) = Inr response"
  from pc_records_origin [OF this assms(3,4)] obtain so row info order_ids where
    so: "so \<in> set (orders (tables s))" and ids: "so_id so \<in> set order_ids"
    and row: "row = select_columns ext (pc_pay_success_query (tables s) order_ids) so"
    and r: "r = attach_goods_info ext info row"
    by blast
  have "r_receive_price row = expected_receive_price ext (tables s) so"
    unfolding row pc_pay_success_query_def
    by (rule select_columns_receive_price, rule outer_join_payment_sum(2) [OF assms(1) so])
      (use ids in simp)
  with so row r show ?thesis
    by (auto simp: attach_goods_info_columns select_columns_def Let_def)
qed

text \<open>The two list operations on the example tables.\<close>

lemma example_list_conditions:
  "list_conditions example_externals both_states_query = both_states_conditions"
  by (simp add: list_conditions_def example_defs when_truthy_def for_given_def truthy_def)

lemma example_pc_conditions_both:
  "pc_conditions example_externals both_states_pc_query = Inr both_states_conditions"
  by (simp add: pc_conditions_def pc_conditions_with_def pc_amount_conditions_def
      example_defs when_truthy_def for_given_def truthy_def)

lemma example_base_query:
  "base_query example_database both_states_conditions = [awaiting_order, paid_order]"
  by (simp add: base_query_def example_defs sql_and_def)

lemma example_order_rows:
  "order_rows sub By_created_at_desc [awaiting_order, paid_order] = [paid_order, awaiting_order]"
  by (simp add: example_defs desc_nulls_first_def)

lemma example_list_main_query:
  "list_main_query example_externals example_database both_states_conditions 10 0 =
     Inr (map (select_columns example_externals (list_pay_success_query example_database [1, 2]))
            [paid_order, awaiting_order])"
proof -
  have ids: "map so_id (base_query example_database both_states_conditions) = [1, 2]"
    by (simp add: example_base_query) (simp add: example_defs)
  have rows: "filter (\<lambda>so. disabled so = Some False \<and> so_id so \<in> set [1, 2])
                (orders example_database) = [awaiting_order, paid_order]"
    by (simp add: example_defs)
  show ?thesis
    unfolding list_main_query_def Let_def ids rows example_order_rows
    by (simp add: limit_offset_def)
qed

lemma example_list_run:
  "do_get_local_order_list_info example_externals both_states_query example_session =
     (Inr [(''records_list'',
           Records (map (attach_goods_info example_externals
                      (group_by_order_number
                         (order_items_query example_database [Some ''SO-2'', Some ''SO-1''])))
             (map (select_columns example_externals
                     (list_pay_success_query example_database [1, 2]))
                [paid_order, awaiting_order]))),
          (''all_count'', Count 2)],
      example_session\<lparr>executed :=
        [List_main_query both_states_conditions 10 0,
         List_count_query both_states_conditions,
         Order_items_query [Some ''SO-2'', Some ''SO-1'']]\<rparr>)"
proof -
  have page: "q_page_size both_states_query = 10" "q_page_number both_states_query = 1"
    by (simp_all add: example_defs)
  have tabs: "tables example_session = example_database" "executed example_session = []"
    by (simp_all add: example_session_def)
  have count: "list_count_query example_database both_states_conditions = 2"
    unfolding list_count_query_def Let_def example_base_query
    by (simp add: example_defs)
  have numbers: "map (r_order_number \<circ>
        select_columns example_externals (list_pay_success_query example_database [1, 2]))
         [paid_order, awaiting_order] = [Some ''SO-2'', Some ''SO-1'']"
    by (simp add: select_columns_def Let_def example_defs)
  show ?thesis
    by (simp add: do_get_local_order_list_info_def Let_def example_list_conditions page tabs
        example_list_main_query count numbers get_order_items_by_order_number_def
        execute_def del: list.map)
qed

lemma sql_round2_examples: "sql_round2 50 = 50" "sql_round2 20 = 20"
  by code_simp+

lemma example_pay_amount_sub:
  "outer_join (pay_amount_sub example_database [1, 2]) (so_id awaiting_order) = Some 50"
  "outer_join (pay_amount_sub example_database [1, 2]) (so_id paid_order) = Some 20"
proof -
  have ids: "distinct (map so_id (orders example_database))"
    by (simp add: example_defs)
  have rows: "awaiting_order \<in> set (orders example_database)"
    "paid_order \<in> set (orders example_database)"
    by (simp_all add: example_database_def)
  have admitted: "so_id awaiting_order \<in> set [1, 2]" "so_id paid_order \<in> set [1, 2]"
    by (simp_all add: example_defs)
  have sums: "sql_sum (map payment_amount (successful_payments example_database awaiting_order))
      = Some 50"
    "sql_sum (map payment_amount (successful_payments example_database paid_order)) = Some 20"
    by (simp_all add: successful_payments_def sql_sum_def non_null_def example_defs)
  show "outer_join (pay_amount_sub example_database [1, 2]) (so_id awaiting_order) = Some 50"
    unfolding pay_amount_sub_def
    using outer_join_payment_sum(2) [of example_database awaiting_order
        "\<lambda>so. so_id so \<in> set [1, 2]", OF ids rows(1) admitted(1)]
    by (simp only: sums option.map sql_round2_examples)
  show "outer_join (pay_amount_sub example_database [1, 2]) (so_id paid_order) = Some 20"
    unfolding pay_amount_sub_def
    using outer_join_payment_sum(2) [of example_database paid_order
        "\<lambda>so. so_id so \<in> set [1, 2]", OF ids rows(2) admitted(2)]
    by (simp only: sums option.map sql_round2_examples)
qed

lemma example_order_rows_by_amount:
  "order_rows (pay_amount_sub example_database [1, 2]) (By_success_pay_amount Descending)
     [awaiting_order, paid_order] = [awaiting_order, paid_order]"
  by (simp add: example_pay_amount_sub directed_def desc_nulls_first_def)

lemma example_base_ids: "map so_id [awaiting_order, paid_order] = [1, 2]"
  by (simp add: example_defs)

lemma example_pc_order_query:
  "pc_order_query example_database both_states_conditions (By_success_pay_amount Descending)
     10 0 = Inr [(1, Some ''SO-1''), (2, Some ''SO-2'')]"
  unfolding pc_order_query_def Let_def example_base_query example_base_ids
    example_order_rows_by_amount
  by (simp add: limit_offset_def) (simp add: example_defs)

lemma example_pc_run:
  "do_get_local_order_pc_list_info example_externals both_states_pc_query example_session =
     (Inr [(''records_list'',
           Records (map (attach_goods_info example_externals
                      (group_by_order_number
                         (order_items_query example_database [Some ''SO-1'', Some ''SO-2''])))
             (map (select_columns example_externals
                     (pc_pay_success_query example_database [1, 2]))
                [awaiting_order, paid_order]))),
          (''amount_data'',
           Amounts (pc_amount_count_query example_database both_states_conditions))],
      example_session\<lparr>executed :=
        [Pc_order_query both_states_conditions (By_success_pay_amount Descending) 10 0,
         Pc_main_query [1, 2],
         Order_items_query [Some ''SO-1'', Some ''SO-2''],
         Pc_amount_count_query both_states_conditions]\<rparr>)"
proof -
  have page: "pc_page_size both_states_pc_query = 10" "pc_page_number both_states_pc_query = 1"
    "pc_order_by both_states_pc_query = By_success_pay_amount Descending"
    by (simp_all add: example_defs pc_order_by_def truthy_def descend_or_ascend_def)
  have tabs: "tables example_session = example_database" "executed example_session = []"
    by (simp_all add: example_session_def)
  have main: "pc_main_query example_externals example_database [1, 2] =
      map (select_columns example_externals (pc_pay_success_query example_database [1, 2]))
        [awaiting_order, paid_order]"
    by (simp add: pc_main_query_def) (simp add: example_defs)
  have cols: "map fst [(1::int, Some ''SO-1''), (2, Some ''SO-2'')] = [1, 2]"
    "map snd [(1::int, Some ''SO-1''), (2, Some ''SO-2'')] = [Some ''SO-1'', Some ''SO-2'']"
    by simp_all
  show ?thesis
    by (simp add: do_get_local_order_pc_list_info_def Let_def example_pc_conditions_both page
        tabs example_pc_order_query cols main get_order_items_by_order_number_def
        execute_def del: list.map)
qed

lemma numeric_text2_twenty: "numeric_text2 (sql_round2 20) = ''20.00''"
  by code_simp

theorem receive_price_of_listed_orders_witness:
  "(\<exists>response records r.
      fst (do_get_local_order_list_info example_externals both_states_query example_session)
        = Inr response
      \<and> (''records_list'', Records records) \<in> set response \<and> r \<in> set records
      \<and> r_id r = 1 \<and> r_state_name r = awaiting_payment_name \<and> r_receive_price r = ''-'')
   \<and> (\<exists>response records r.
      fst (do_get_local_order_pc_list_info example_externals both_states_pc_query
             example_session) = Inr response
      \<and> (''records_list'', Records records) \<in> set response \<and> r \<in> set records
      \<and> r_id r = 2 \<and> r_state_name r = ''paid'' \<and> r_receive_price r = ''20.00'')"
proof -
  have ids: "distinct (map so_id (orders (tables example_session)))"
    by (simp add: example_defs)
  have tabs: "tables example_session = example_database"
    by (simp add: example_session_def)
  have awaiting: "expected_receive_price example_externals example_database awaiting_order = ''-''"
    by (simp add: expected_receive_price_def sale_order_state_trans_def example_defs
        created_name_def awaiting_payment_name_def)
  have paid_sum: "sql_sum (map payment_amount (successful_payments example_database paid_order))
      = Some 20"
    by (simp add: successful_payments_def sql_sum_def non_null_def example_defs)
  have paid: "expected_receive_price example_externals example_database paid_order = ''20.00''"
    unfolding expected_receive_price_def paid_sum
    by (simp add: numeric_text2_twenty)
      (simp add: sale_order_state_trans_def example_defs created_name_def
        awaiting_payment_name_def)
  have the_orders: "\<And>so. so \<in> set (orders example_database) \<Longrightarrow> so_id so = 1 \<Longrightarrow> so = awaiting_order"
    "\<And>so. so \<in> set (orders example_database) \<Longrightarrow> so_id so = 2 \<Longrightarrow> so = paid_order"
    by (auto simp: example_defs)
  let ?info = "group_by_order_number
                 (order_items_query example_database [Some ''SO-2'', Some ''SO-1''])"
  let ?r1 = "attach_goods_info example_externals ?info
               (select_columns example_externals
                  (list_pay_success_query example_database [1, 2]) awaiting_order)"
  let ?info2 = "group_by_order_number
                  (order_items_query example_database [Some ''SO-1'', Some ''SO-2''])"
  let ?r2 = "attach_goods_info example_externals ?info2
               (select_columns example_externals
                  (pc_pay_success_query example_database [1, 2]) paid_order)"
  have id1: "r_id ?r1 = 1" and id2: "r_id ?r2 = 2"
    by (simp_all add: attach_goods_info_columns select_columns_def Let_def example_defs)
  let ?recs1 = "map (attach_goods_info example_externals ?info)
                  (map (select_columns example_externals
                          (list_pay_success_query example_database [1, 2]))
                     [paid_order, awaiting_order])"
  let ?recs2 = "map (attach_goods_info example_externals ?info2)
                  (map (select_columns example_externals
                          (pc_pay_success_query example_database [1, 2]))
                     [awaiting_order, paid_order])"
  let ?resp1 = "[(''records_list'', Records ?recs1), (''all_count'', Count 2)]"
  let ?resp2 = "[(''records_list'', Records ?recs2),
                 (''amount_data'',
                  Amounts (pc_amount_count_query example_database both_states_conditions))]"
  have run1: "fst (do_get_local_order_list_info example_externals both_states_query
                     example_session) = Inr ?resp1"
    by (simp add: example_list_run del: list.map)
  have run2: "fst (do_get_local_order_pc_list_info example_externals both_states_pc_query
                     example_session) = Inr ?resp2"
    by (simp add: example_pc_run del: list.map)
  have mem1: "(''records_list'', Records ?recs1) \<in> set ?resp1"
    and mem2: "(''records_list'', Records ?recs2) \<in> set ?resp2"
    by simp_all
  have in1: "?r1 \<in> set ?recs1" and in2: "?r2 \<in> set ?recs2"
    by simp_all
  from receive_price_of_listed_orders
    [of example_session example_externals both_states_query ?resp1 example_pc_query
        ?recs1 ?r1, OF ids disjI1 [OF run1] mem1 in1]
  obtain so1 where so1: "so1 \<in> set (orders (tables example_session))" "so_id so1 = r_id ?r1"
    "r_state_name ?r1 = sale_order_state_trans example_externals [] (state so1)"
    "r_receive_price ?r1 = expected_receive_price example_externals (tables example_session) so1"
    by blast
  from so1(1,2) the_orders(1) id1 tabs have "so1 = awaiting_order"
    by simp
  with so1(3,4) awaiting tabs have first: "r_state_name ?r1 = awaiting_payment_name"
    "r_receive_price ?r1 = ''-''"
    by (simp_all add: sale_order_state_trans_def example_defs created_name_def
        awaiting_payment_name_def)
  from receive_price_of_listed_orders
    [of example_session example_externals example_query ?resp2 both_states_pc_query
        ?recs2 ?r2, OF ids disjI2 [OF run2] mem2 in2]
  obtain so2 where so2: "so2 \<in> set (orders (tables example_session))" "so_id so2 = r_id ?r2"
    "r_state_name ?r2 = sale_order_state_trans example_externals [] (state so2)"
    "r_receive_price ?r2 = expected_receive_price example_externals (tables example_session) so2"
    by blast
  from so2(1,2) the_orders(2) id2 tabs have "so2 = paid_order"
    by simp
  with so2(3,4) paid tabs have second: "r_state_name ?r2 = ''paid''"
    "r_receive_price ?r2 = ''20.00''"
    by (simp_all add: sale_order_state_trans_def example_defs created_name_def
        awaiting_payment_name_def)
  from run1 mem1 in1 id1 first have
    "\<exists>response records r.
      fst (do_get_local_order_list_info example_externals both_states_query example_session)
        = Inr response
      \<and> (''records_list'', Records records) \<in> set response \<and> r \<in> set records
      \<and> r_id r = 1 \<and> r_state_name r = awaiting_payment_name \<and> r_receive_price r = ''-''"
    by blast
  moreover from run2 mem2 in2 id2 second have
    "\<exists>response records r.
      fst (do_get_local_order_pc_list_info example_externals both_states_pc_query
             example_session) = Inr response
      \<and> (''records_list'', Records records) \<in> set response \<and> r \<in> set records
      \<and> r_id r = 2 \<and> r_state_name r = ''paid'' \<and> r_receive_price r = ''20.00''"
    by blast
  ultimately show ?thesis by blast
qed

subsection \<open>Early return of the PC list\<close>

text \<open>
  C10. When the requested page of the PC list query matches no order ids, the operation
  returns records_list equal to the empty list and amount_data whose four fields
  (total_price, total_discount_price, total_receive_price, total_count) are all exactly
  0, and the id query is the only statement it has executed: the main projection, the
  item query and the aggregate query are not run.
\<close>

theorem pc_empty_page_returns_early:
  assumes "pc_conditions ext q = Inr conditions"
    and "pc_order_query (tables s) conditions (pc_order_by q) (pc_page_size q)
           (pc_page_size q * (pc_page_number q - 1)) = Inr []"
  shows "fst (do_get_local_order_pc_list_info ext q s) =
           Inr [(''records_list'', Records []),
                (''amount_data'',
                 Amounts \<lparr>total_price = 0, total_discount_price = 0,
                          total_receive_price = 0, total_count = 0\<rparr>)]
    \<and> newly_executed s (snd (do_get_local_order_pc_list_info ext q s)) =
          [Pc_order_query conditions (pc_order_by q) (pc_page_size q)
             (pc_page_size q * (pc_page_number q - 1))]"
  using assms
  by (simp add: do_get_local_order_pc_list_info_def Let_def execute_def newly_executed_def)

lemma example_second_page:
  "pc_conditions example_externals second_page_pc_query = Inr both_states_conditions"
  "pc_order_by second_page_pc_query = By_success_pay_amount Descending"
  "pc_page_size second_page_pc_query = 10"
  "pc_page_number second_page_pc_query = 2"
  by (simp_all add: pc_conditions_def pc_conditions_with_def pc_amount_conditions_def
      second_page_pc_query_def example_defs when_truthy_def for_given_def truthy_def
      pc_order_by_def descend_or_ascend_def)

lemma example_second_page_order_query:
  "pc_order_query example_database both_states_conditions (By_success_pay_amount Descending)
     10 10 = Inr []"
  unfolding pc_order_query_def Let_def example_base_query example_base_ids
    example_order_rows_by_amount
  by (simp add: limit_offset_def)

theorem pc_empty_page_returns_early_witness:
  "fst (do_get_local_order_pc_list_info example_externals second_page_pc_query example_session) =
     Inr [(''records_list'', Records []),
          (''amount_data'',
           Amounts \<lparr>total_price = 0, total_discount_price = 0,
                    total_receive_price = 0, total_count = 0\<rparr>)]
   \<and> executed (snd (do_get_local_order_pc_list_info example_externals second_page_pc_query
                       example_session)) =
       [Pc_order_query both_states_conditions (By_success_pay_amount Descending) 10 10]"
proof -
  have tabs: "tables example_session = example_database" "executed example_session = []"
    by (simp_all add: example_session_def)
  have page: "pc_order_query (tables example_session) both_states_conditions
      (pc_order_by second_page_pc_query) (pc_page_size second_page_pc_query)
      (pc_page_size second_page_pc_query * (pc_page_number second_page_pc_query - 1)) = Inr []"
    by (simp add: example_second_page tabs example_second_page_order_query)
  show ?thesis
    using pc_empty_page_returns_early [OF example_second_page(1) page]
    by (simp add: newly_executed_def tabs example_second_page)
qed

subsection \<open>Response shapes\<close>

text \<open>
  C4 as stated fails on the PC list: on the example tables it returns a dict with the keys
  records_list and amount_data, not records_list and all_count.
\<close>

theorem pc_list_response_counterexample:
  "response_keys
     (fst (do_get_local_order_pc_list_info example_externals both_states_pc_query
             example_session)) = Some [''records_list'', ''amount_data'']
   \<and> response_keys
     (fst (do_get_local_order_pc_list_info example_externals both_states_pc_query
             example_session)) \<noteq> Some [''records_list'', ''all_count'']"
  by (simp add: example_pc_run response_keys_def)

lemma list_response_shape:
  assumes "fst (do_get_local_order_list_info ext q s) = Inr response"
  shows "\<exists>records. response =
     [(''records_list'', Records records),
      (''all_count'', Count (list_count_query (tables s) (list_conditions ext q)))]"
  using assms
  by (auto simp: do_get_local_order_list_info_def Let_def split_def split: sum.splits)

lemma pc_response_shape:
  assumes "fst (do_get_local_order_pc_list_info ext p s) = Inr response"
  shows "\<exists>records amounts. response =
     [(''records_list'', Records records), (''amount_data'', Amounts amounts)]"
  using assms
  by (auto simp: do_get_local_order_pc_list_info_def Let_def split_def
      split: sum.splits if_splits)

lemma detail_none:
  "(fst (do_get_local_order_detail_info ext record_id' company_id' s) = None) =
     (\<not> (\<exists>so \<in> set (orders (tables s)).
            so_id so = record_id' \<and> company_id so = Some company_id'
            \<and> disabled so = Some False))"
proof -
  have "(fst (do_get_local_order_detail_info ext record_id' company_id' s) = None) =
      (detail_main_query ext (tables s) record_id' company_id' = [])"
    by (simp add: do_get_local_order_detail_info_def Let_def split: list.splits)
  also have "\<dots> = (filter (\<lambda>so. disabled so = Some False \<and> company_id so = Some company_id'
                        \<and> so_id so = record_id') (orders (tables s)) = [])"
    by (simp add: detail_main_query_def Let_def)
  also have "\<dots> = (\<not> (\<exists>so \<in> set (orders (tables s)).
            so_id so = record_id' \<and> company_id so = Some company_id'
            \<and> disabled so = Some False))"
    by (auto simp: filter_empty_conv)
  finally show ?thesis .
qed

text \<open>
  C4, as amended. The list operation returns a dict of shape records_list, all_count,
  with all_count the result of its count query; the PC list operation returns a dict of
  shape records_list, amount_data; and the detail operation returns None exactly when no
  row that is not disabled matches the given record id and company id.
\<close>

theorem response_shapes:
  "(\<forall>response. fst (do_get_local_order_list_info ext q s) = Inr response \<longrightarrow>
      (\<exists>records. response =
         [(''records_list'', Records records),
          (''all_count'', Count (list_count_query (tables s) (list_conditions ext q)))]))
   \<and> (\<forall>response. fst (do_get_local_order_pc_list_info ext p s) = Inr response \<longrightarrow>
      (\<exists>records amounts. response =
         [(''records_list'', Records records), (''amount_data'', Amounts amounts)]))
   \<and> (fst (do_get_local_order_detail_info ext record_id' company_id' s) = None) =
       (\<not> (\<exists>so \<in> set (orders (tables s)).
              so_id so = record_id' \<and> company_id so = Some company_id'
              \<and> disabled so = Some False))"
  using list_response_shape [of ext q s] pc_response_shape [of ext p s]
    detail_none [of ext record_id' company_id' s]
  by blast

theorem response_shapes_witness:
  "response_keys
     (fst (do_get_local_order_list_info example_externals both_states_query example_session))
     = Some [''records_list'', ''all_count'']
   \<and> response_keys
     (fst (do_get_local_order_pc_list_info example_externals both_states_pc_query
             example_session)) = Some [''records_list'', ''amount_data'']
   \<and> fst (do_get_local_order_detail_info example_externals 3 1 example_session) = None
   \<and> fst (do_get_local_order_detail_info example_externals 2 7 example_session) = None
   \<and> fst (do_get_local_order_detail_info example_externals 2 1 example_session) \<noteq> None"
proof -
  have tabs: "tables example_session = example_database"
    by (simp add: example_session_def)
  have rows: "orders example_database = [awaiting_order, paid_order]"
    by (simp add: example_database_def)
  note shapes = response_shapes [of example_externals both_states_query example_session
      both_states_pc_query]
  from shapes [of 3 1]
  have "fst (do_get_local_order_detail_info example_externals 3 1 example_session) = None"
    by (simp add: tabs rows) (simp add: example_defs)
  moreover from shapes [of 2 7]
  have "fst (do_get_local_order_detail_info example_externals 2 7 example_session) = None"
    by (simp add: tabs rows) (simp add: example_defs)
  moreover from shapes [of 2 1]
  have "fst (do_get_local_order_detail_info example_externals 2 1 example_session) \<noteq> None"
    by (simp add: tabs rows) (simp add: example_defs)
  ultimately show ?thesis
    by (simp add: example_list_run example_pc_run response_keys_def)
qed

subsection \<open>Pagination and counting\<close>









subsection \<open>Text filters\<close>

lemma like_match_percent:
  assumes "esc \<noteq> CHR ''%''"
  shows "like_match esc ''%'' s"
  using assms by (induction s) simp_all

lemma like_match_percents:
  assumes "esc \<noteq> CHR ''%''"
  shows "like_match esc ''%%%'' s"
proof -
  from assms have "like_match esc ''%%'' s"
    using like_match_percent [OF assms, of s] by (cases s) simp_all
  with assms show ?thesis
    by (cases s) simp_all
qed

lemma ilike_percent_input: "ilike None (percent_wrapped ''%'') s"
  by (simp add: ilike_def percent_wrapped_def like_match_percents del: like_match.simps)

lemma escaped_percent_no_match:
  "\<not> ilike (Some (CHR ''/'')) ''%/%%'' ''SO-2''"
  by code_simp

text \<open>
  C3 states that every text filter escapes the wildcards of the user's input. The
  keyword search of the list and the product search of the PC list do, through
  fuzzy_search_string and the escape argument. The operator search of the list, and the
  order number, member and operator searches of the PC list, embed the input in an
  f-string as it is and pass no escape argument. Searching the operator for a percent
  sign gives the pattern of three percent signs, which matches every text: the order whose
  operator is named Li, with no percent sign in it, is selected. The same input in the
  keyword search gives the escaped pattern and selects nothing.
\<close>

theorem unescaped_percent_is_wildcard:
  "list_conditions example_externals percent_operater_query =
     [Disabled_is_false, Int_equals Company_id 1, Int_equals Order_source 1,
      Int_in State [4, 5, 6, 8, 9, 10, 11],
      Or_any [ILike Operater_name ''%%%'' None, ILike Operater_phone ''%%%'' None,
              ILike Shopping_guide_name ''%%%'' None]]
   \<and> (\<forall>s. ilike None ''%%%'' s)
   \<and> operater_name paid_order = Some ''Li''
   \<and> base_query example_database (list_conditions example_externals percent_operater_query)
       = [paid_order]
   \<and> list_conditions example_externals percent_keyword_query =
     [Disabled_is_false, Int_equals Company_id 1, Int_equals Order_source 1,
      Or_any [ILike Order_number ''%/%%'' (Some (CHR ''/'')),
              ILike Member_name ''%/%%'' (Some (CHR ''/'')),
              ILike Member_phone ''%/%%'' (Some (CHR ''/'')),
              Exists_item_ilike ''%/%%'' (Some (CHR ''/''))],
      Int_in State [4, 5, 6, 8, 9, 10, 11]]
   \<and> base_query example_database (list_conditions example_externals percent_keyword_query)
       = []
   \<and> pc_conditions example_externals
       (example_pc_query\<lparr>pc_order_number := Some ''%'', pc_user_name_or_phone := Some ''_'',
                           pc_operater_name_or_phone := Some ''%''\<rparr>) =
     Inr [Disabled_is_false, Int_equals Company_id 1, Int_equals Order_source 1,
          ILike Order_number ''%%%'' None,
          Int_in State [4, 5, 6, 8, 9, 10, 11],
          Or_any [ILike Member_name ''%_%'' None, ILike Member_phone ''%_%'' None],
          Or_any [ILike Operater_name ''%%%'' None, ILike Operater_phone ''%%%'' None]]"
proof -
  have all: "\<forall>s. ilike None ''%%%'' s"
    using ilike_percent_input by (simp add: percent_wrapped_def)
  have c1: "list_conditions example_externals percent_operater_query =
     [Disabled_is_false, Int_equals Company_id 1, Int_equals Order_source 1,
      Int_in State [4, 5, 6, 8, 9, 10, 11],
      Or_any [ILike Operater_name ''%%%'' None, ILike Operater_phone ''%%%'' None,
              ILike Shopping_guide_name ''%%%'' None]]"
    by (simp add: list_conditions_def percent_operater_query_def example_defs when_truthy_def
        for_given_def truthy_def percent_wrapped_def)
  have c2: "list_conditions example_externals percent_keyword_query =
     [Disabled_is_false, Int_equals Company_id 1, Int_equals Order_source 1,
      Or_any [ILike Order_number ''%/%%'' (Some (CHR ''/'')),
              ILike Member_name ''%/%%'' (Some (CHR ''/'')),
              ILike Member_phone ''%/%%'' (Some (CHR ''/'')),
              Exists_item_ilike ''%/%%'' (Some (CHR ''/''))],
      Int_in State [4, 5, 6, 8, 9, 10, 11]]"
    by (simp add: list_conditions_def percent_keyword_query_def example_defs when_truthy_def
        for_given_def truthy_def fuzzy_search_string_def Let_def)
  have b1: "base_query example_database (list_conditions example_externals
      percent_operater_query) = [paid_order]"
    unfolding c1
    by (simp add: base_query_def sql_and_def sql_or_def all example_defs)
  have b2: "base_query example_database (list_conditions example_externals
      percent_keyword_query) = []"
    unfolding c2
    by (simp add: base_query_def sql_and_def sql_or_def item_matches_def escaped_percent_no_match
        example_defs)
  have pc: "pc_conditions example_externals
       (example_pc_query\<lparr>pc_order_number := Some ''%'', pc_user_name_or_phone := Some ''_'',
                           pc_operater_name_or_phone := Some ''%''\<rparr>) =
     Inr [Disabled_is_false, Int_equals Company_id 1, Int_equals Order_source 1,
          ILike Order_number ''%%%'' None,
          Int_in State [4, 5, 6, 8, 9, 10, 11],
          Or_any [ILike Member_name ''%_%'' None, ILike Member_phone ''%_%'' None],
          Or_any [ILike Operater_name ''%%%'' None, ILike Operater_phone ''%%%'' None]]"
    by (simp add: pc_conditions_def pc_conditions_with_def pc_amount_conditions_def
        example_defs when_truthy_def for_given_def truthy_def percent_wrapped_def)
  have name: "operater_name paid_order = Some ''Li''"
    by (simp add: example_defs)
  from c1 all name b1 c2 b2 pc show ?thesis
    by (simp only: simp_thms)
qed

end
